theory Spec2Isabelle
  imports Main "HOL-Library.AList" "HOL-Library.Char_ord" "HOL-Library.List_Lexorder"
begin

section \<open>A model of the terraform version manager\<close>

text \<open>
  The program is a Node.js command-line tool (\<^verbatim>\<open>install\<close>, \<^verbatim>\<open>uninstall\<close>,
  \<^verbatim>\<open>use\<close>, \<^verbatim>\<open>list\<close>). Its functions are asynchronous and work on the file system and
  the network. The model makes both explicit:
  \<^item> the file system is a table from path strings to nodes, and every asynchronous function
    takes the world and returns the new world together with its result or the error it throws;
  \<^item> every system call, HTTP request and console line is appended to a trace, so that the order
    of effects can be stated;
  \<^item> what the host and the libraries decide (platform, injected I/O errors, HTTP responses,
    the zip extractor, SHA-256, OpenPGP verification, the pinned key) is a record of parameters.
  A JavaScript string is modelled by the list of its code units, each of them below 256
  (ASCII and Latin-1); strings with other code units, among them the line separators U+2028
  and U+2029, are outside the model. The bytes of a response are characters too. Console output
  of the commands is part of the trace; the wrapper that turns an error into an exit code is
  left out.

  The repository holds three snapshots of the script. The model follows the latest one (the
  one with \<^verbatim>\<open>fetchSum\<close> and the command functions); of the snapshot before it, \<^verbatim>\<open>install\<close>
  is modelled as \<open>install_earlier\<close>.
\<close>

subsection \<open>Errors\<close>

text \<open>The \<^verbatim>\<open>code\<close> property of an error raised by a file-system call.\<close>

datatype errno = ENOENT | EPERM | EACCES | EEXIST | ENOTDIR | EISDIR | EINVAL | EIO | ENOSPC

text \<open>
  The errors the program throws itself (one constructor for each message of the source), the
  \<^verbatim>\<open>TypeError\<close> of reading a property of \<^verbatim>\<open>null\<close> or \<^verbatim>\<open>undefined\<close>, a system error with
  its code, and an error raised inside a library (superagent, unzipper, openpgp).
\<close>

datatype error =
    UnsupportedArchitecture string
  | UnsupportedPlatform string
  | SignatureVerificationFailed
  | HashVerificationFailed
  | DownloadFailed nat
  | NotInstalled string
  | InsufficientPermissions
  | TypeError
  | SystemError errno
  | LibraryError string

fun code :: "error \<Rightarrow> errno option" where
  "code (SystemError c) = Some c"
| "code _ = None"

subsection \<open>The world: file system and trace\<close>

text \<open>A regular file has its content and its permission mode; a symbolic link has its target.\<close>

datatype node = Dir | File string string | Link string

datatype syscall =
    Stat string
  | Mkdir string
  | Open string
  | Write string
  | Chmod string string
  | Unlink string
  | Symlink string string
  | Readlink string
  | Readdir string

datatype event = Sys syscall | HttpGet string | HttpAbort string | Console string

record world =
  nodes :: "(string \<times> node) list"
  trace :: "event list"

subsection \<open>The environment\<close>

record response =
  status :: nat
  res_text :: string
  res_body :: string

text \<open>
  What a piped request shows to its listeners: an \<^verbatim>\<open>error\<close> event before any response, or a
  \<^verbatim>\<open>response\<close> event with its status, followed by the chunks of the body and possibly an
  \<^verbatim>\<open>error\<close> event that cuts the body short.
\<close>

datatype stream_outcome = RequestError error | Response nat "string list" "error option"

text \<open>
  \<open>fault\<close> injects an I/O error into a system call (the call then changes nothing);
  \<open>http_get\<close> is an awaited \<^verbatim>\<open>request.get(url)\<close>; \<open>http_stream\<close> is a piped one;
  \<open>unzip_ParseOne\<close> gives the bytes the extractor emits for its input and the error it raises,
  if any; \<open>sha256_hex\<close> is the hex digest of node's \<^verbatim>\<open>crypto\<close>; \<open>pgp_verify\<close> takes the
  armored key, the message and the detached signature and gives the \<^verbatim>\<open>verified\<close> flag of each
  entry of \<^verbatim>\<open>result.signatures\<close>, or the error openpgp raises while it reads the key and
  the signature, verifies, or resolves the flag. \<open>publicKey\<close> is the module
  \<^verbatim>\<open>hashiCorpKey\<close>.
\<close>

record env =
  os_platform :: string
  os_arch :: string
  os_homedir :: string
  fault :: "syscall \<Rightarrow> errno option"
  http_get :: "string \<Rightarrow> error + response"
  http_stream :: "string \<Rightarrow> stream_outcome"
  unzip_ParseOne :: "string \<Rightarrow> string \<times> error option"
  sha256_hex :: "string \<Rightarrow> string"
  pgp_verify :: "string \<Rightarrow> string \<Rightarrow> string \<Rightarrow> error + bool list"
  publicKey :: string

subsection \<open>Asynchronous functions: world passing with errors\<close>

type_synonym 'a io = "world \<Rightarrow> (error + 'a) \<times> world"

definition ret :: "'a \<Rightarrow> 'a io" where
  "ret x w = (Inr x, w)"

definition throw :: "error \<Rightarrow> 'a io" where
  "throw e w = (Inl e, w)"

definition lift :: "error + 'a \<Rightarrow> 'a io" where
  "lift r w = (r, w)"

text \<open>\<^verbatim>\<open>const x = await m; f(x)\<close>: an error of \<open>m\<close> skips \<open>f\<close>.\<close>

definition bind :: "'a io \<Rightarrow> ('a \<Rightarrow> 'b io) \<Rightarrow> 'b io" where
  "bind m f w = (case m w of (Inl e, w') \<Rightarrow> (Inl e, w') | (Inr x, w') \<Rightarrow> f x w')"

text \<open>\<^verbatim>\<open>try { m } catch (err) { h(err) }\<close>: the handler runs in the world the error left.\<close>

definition catch :: "'a io \<Rightarrow> (error \<Rightarrow> 'a io) \<Rightarrow> 'a io" where
  "catch m h w = (case m w of (Inl e, w') \<Rightarrow> h e w' | (Inr x, w') \<Rightarrow> (Inr x, w'))"

definition emit :: "event \<Rightarrow> unit io" where
  "emit ev w = (Inr (), w\<lparr>trace := trace w @ [ev]\<rparr>)"

text \<open>A system call is traced; an injected fault makes it fail before it acts.\<close>

definition sys :: "env \<Rightarrow> syscall \<Rightarrow> 'a io \<Rightarrow> 'a io" where
  "sys E c act w =
     (let w1 = w\<lparr>trace := trace w @ [Sys c]\<rparr>
      in case fault E c of Some e \<Rightarrow> (Inl (SystemError e), w1) | None \<Rightarrow> act w1)"

subsection \<open>Paths\<close>

text \<open>
  \<^verbatim>\<open>path.join\<close> of two segments that need no normalisation puts the platform's separator
  between them: the model covers a home directory without a trailing separator and versions
  that are one path segment (no separator in them, and so no segment \<open>.\<close> or \<open>..\<close>); \<^verbatim>\<open>path.basename\<close> drops trailing separators and gives what follows the last
  separator left. On Windows both the slash and the backslash separate.
\<close>

definition path_sep :: "env \<Rightarrow> char" where
  "path_sep E = (if os_platform E = ''win32'' then CHR 0x5C else CHR ''/'')"

definition is_sep :: "env \<Rightarrow> char \<Rightarrow> bool" where
  "is_sep E c = (c = CHR ''/'' \<or> (os_platform E = ''win32'' \<and> c = CHR 0x5C))"

definition path_join :: "env \<Rightarrow> string \<Rightarrow> string \<Rightarrow> string" where
  "path_join E a b = a @ path_sep E # b"

definition basename :: "env \<Rightarrow> string \<Rightarrow> string" where
  "basename E p = rev (takeWhile (\<lambda>c. \<not> is_sep E c) (dropWhile (is_sep E) (rev p)))"

subsection \<open>The file system calls of \<^verbatim>\<open>fs\<close> and \<^verbatim>\<open>fs.promises\<close>\<close>

text \<open>
  The table holds the paths the program names; parent directories are not tracked (a missing
  parent is an injected \<open>ENOENT\<close>), and a call on a version path does not follow a link there.
\<close>

definition fs_stat :: "env \<Rightarrow> string \<Rightarrow> unit io" where
  "fs_stat E p = sys E (Stat p) (\<lambda>w.
     case map_of (nodes w) p of
       None \<Rightarrow> (Inl (SystemError ENOENT), w)
     | Some _ \<Rightarrow> (Inr (), w))"

text \<open>\<^verbatim>\<open>mkdir(p, {recursive: true})\<close> succeeds on an existing directory.\<close>

definition fs_mkdir_recursive :: "env \<Rightarrow> string \<Rightarrow> unit io" where
  "fs_mkdir_recursive E p = sys E (Mkdir p) (\<lambda>w.
     case map_of (nodes w) p of
       None \<Rightarrow> (Inr (), w\<lparr>nodes := AList.update p Dir (nodes w)\<rparr>)
     | Some Dir \<Rightarrow> (Inr (), w)
     | Some _ \<Rightarrow> (Inl (SystemError EEXIST), w))"

text \<open>The names in a directory: the paths of the table one segment below it.\<close>

definition is_child :: "env \<Rightarrow> string \<Rightarrow> string \<Rightarrow> bool" where
  "is_child E d p =
     (take (Suc (length d)) p = d @ [path_sep E] \<and>
      drop (Suc (length d)) p \<noteq> [] \<and>
      \<not> list_ex (is_sep E) (drop (Suc (length d)) p))"

definition children :: "env \<Rightarrow> string \<Rightarrow> (string \<times> node) list \<Rightarrow> string list" where
  "children E d ns = map (drop (Suc (length d))) (filter (is_child E d) (map fst ns))"

definition fs_readdir :: "env \<Rightarrow> string \<Rightarrow> string list io" where
  "fs_readdir E p = sys E (Readdir p) (\<lambda>w.
     case map_of (nodes w) p of
       None \<Rightarrow> (Inl (SystemError ENOENT), w)
     | Some Dir \<Rightarrow> (Inr (children E p (nodes w)), w)
     | Some _ \<Rightarrow> (Inl (SystemError ENOTDIR), w))"

definition fs_readlink :: "env \<Rightarrow> string \<Rightarrow> string io" where
  "fs_readlink E p = sys E (Readlink p) (\<lambda>w.
     case map_of (nodes w) p of
       None \<Rightarrow> (Inl (SystemError ENOENT), w)
     | Some (Link t) \<Rightarrow> (Inr t, w)
     | Some _ \<Rightarrow> (Inl (SystemError EINVAL), w))"

definition fs_unlink :: "env \<Rightarrow> string \<Rightarrow> unit io" where
  "fs_unlink E p = sys E (Unlink p) (\<lambda>w.
     case map_of (nodes w) p of
       None \<Rightarrow> (Inl (SystemError ENOENT), w)
     | Some Dir \<Rightarrow> (Inl (SystemError EISDIR), w)
     | Some _ \<Rightarrow> (Inr (), w\<lparr>nodes := AList.delete p (nodes w)\<rparr>))"

definition fs_symlink :: "env \<Rightarrow> string \<Rightarrow> string \<Rightarrow> unit io" where
  "fs_symlink E target p = sys E (Symlink target p) (\<lambda>w.
     case map_of (nodes w) p of
       None \<Rightarrow> (Inr (), w\<lparr>nodes := AList.update p (Link target) (nodes w)\<rparr>)
     | Some _ \<Rightarrow> (Inl (SystemError EEXIST), w))"

definition fs_chmod :: "env \<Rightarrow> string \<Rightarrow> string \<Rightarrow> unit io" where
  "fs_chmod E p m = sys E (Chmod p m) (\<lambda>w.
     case map_of (nodes w) p of
       None \<Rightarrow> (Inl (SystemError ENOENT), w)
     | Some (File c _) \<Rightarrow> (Inr (), w\<lparr>nodes := AList.update p (File c m) (nodes w)\<rparr>)
     | Some _ \<Rightarrow> (Inr (), w))"

text \<open>
  \<^verbatim>\<open>fs.createWriteStream(p)\<close> opens \<open>p\<close> for writing: it creates the file, or truncates the
  one that is there. The mode of a new file is written \<open>644\<close>.
\<close>

definition fs_createWriteStream :: "env \<Rightarrow> string \<Rightarrow> unit io" where
  "fs_createWriteStream E p = sys E (Open p) (\<lambda>w.
     case map_of (nodes w) p of
       None \<Rightarrow> (Inr (), w\<lparr>nodes := AList.update p (File [] ''644'') (nodes w)\<rparr>)
     | Some (File _ m) \<Rightarrow> (Inr (), w\<lparr>nodes := AList.update p (File [] m) (nodes w)\<rparr>)
     | Some Dir \<Rightarrow> (Inl (SystemError EISDIR), w)
     | Some (Link _) \<Rightarrow> (Inl (SystemError EINVAL), w))"

text \<open>What is piped into the write stream is appended to the file.\<close>

definition fs_write :: "env \<Rightarrow> string \<Rightarrow> string \<Rightarrow> unit io" where
  "fs_write E p d = sys E (Write p) (\<lambda>w.
     case map_of (nodes w) p of
       Some (File c m) \<Rightarrow> (Inr (), w\<lparr>nodes := AList.update p (File (c @ d) m) (nodes w)\<rparr>)
     | _ \<Rightarrow> (Inl (SystemError EIO), w))"

subsection \<open>Constants and names (lines 16 to 74 of the latest snapshot)\<close>

definition EXE_SUFFIX :: "env \<Rightarrow> string" where
  "EXE_SUFFIX E = (if os_platform E = ''win32'' then ''.exe'' else [])"

definition INSTALL_DIR :: "env \<Rightarrow> string" where
  "INSTALL_DIR E = path_join E (os_homedir E) ''.tfvm''"

definition VERSIONS_DIR :: "env \<Rightarrow> string" where
  "VERSIONS_DIR E = path_join E (INSTALL_DIR E) ''versions''"

definition CURRENT_LINK :: "env \<Rightarrow> string" where
  "CURRENT_LINK E = path_join E (INSTALL_DIR E) (''terraform'' @ EXE_SUFFIX E)"

definition getArch :: "env \<Rightarrow> error + string" where
  "getArch E =
     (if os_arch E = ''ia32'' then Inr ''386''
      else if os_arch E = ''x64'' then Inr ''amd64''
      else Inl (UnsupportedArchitecture (os_arch E)))"

definition getPlatform :: "env \<Rightarrow> error + string" where
  "getPlatform E =
     (if os_platform E = ''win32'' then Inr ''windows''
      else if os_platform E = ''darwin'' then Inr ''darwin''
      else if os_platform E = ''linux'' then Inr ''linux''
      else Inl (UnsupportedPlatform (os_platform E)))"

text \<open>A template literal evaluates its holes from left to right: the platform first.\<close>

definition getZipName :: "env \<Rightarrow> string \<Rightarrow> error + string" where
  "getZipName E version =
     (case getPlatform E of
        Inl e \<Rightarrow> Inl e
      | Inr p \<Rightarrow>
          (case getArch E of
             Inl e \<Rightarrow> Inl e
           | Inr a \<Rightarrow> Inr (''terraform_'' @ version @ ''_'' @ p @ ''_'' @ a @ ''.zip'')))"

definition getExeUrl :: "env \<Rightarrow> string \<Rightarrow> error + string" where
  "getExeUrl E version =
     (case getZipName E version of
        Inl e \<Rightarrow> Inl e
      | Inr z \<Rightarrow> Inr (''https://releases.hashicorp.com/terraform/'' @ version @ ''/'' @ z))"

definition getSumsUrl :: "string \<Rightarrow> string" where
  "getSumsUrl version =
     ''https://releases.hashicorp.com/terraform/'' @ version @ ''/terraform_'' @ version
       @ ''_SHA256SUMS''"

definition getSigUrl :: "string \<Rightarrow> string" where
  "getSigUrl version =
     ''https://releases.hashicorp.com/terraform/'' @ version @ ''/terraform_'' @ version
       @ ''_SHA256SUMS.sig''"

definition getPath :: "env \<Rightarrow> string \<Rightarrow> string" where
  "getPath E version = path_join E (VERSIONS_DIR E) (''terraform_'' @ version @ EXE_SUFFIX E)"

text \<open>The name of the file of a version: the last segment of \<^verbatim>\<open>getPath\<close>.\<close>

definition version_file :: "env \<Rightarrow> string \<Rightarrow> string" where
  "version_file E version = ''terraform_'' @ version @ EXE_SUFFIX E"

subsection \<open>\<^verbatim>\<open>getVersion\<close>: the regular expression \<^verbatim>\<open>terraform_(.+)${EXE_SUFFIX}\<close>\<close>

text \<open>
  The suffix is spliced into the pattern unescaped, so the dot of \<^verbatim>\<open>.exe\<close> is the wildcard.
  The wildcard matches every character but a line terminator; among the code units of the
  model these are the line feed and the carriage return.
\<close>

datatype atom = Lit char | AnyChar

definition suffix_atoms :: "string \<Rightarrow> atom list" where
  "suffix_atoms s = map (\<lambda>c. if c = CHR ''.'' then AnyChar else Lit c) s"

definition wildcard :: "char \<Rightarrow> bool" where
  "wildcard c = (c \<noteq> CHR 0x0A \<and> c \<noteq> CHR 0x0D)"

fun starts_with :: "string \<Rightarrow> string \<Rightarrow> bool" where
  "starts_with [] s = True"
| "starts_with (p # ps) [] = False"
| "starts_with (p # ps) (c # cs) = (p = c \<and> starts_with ps cs)"

fun match_atoms :: "atom list \<Rightarrow> string \<Rightarrow> bool" where
  "match_atoms [] s = True"
| "match_atoms (a # as) [] = False"
| "match_atoms (Lit x # as) (c # cs) = (x = c \<and> match_atoms as cs)"
| "match_atoms (AnyChar # as) (c # cs) = (wildcard c \<and> match_atoms as cs)"

text \<open>
  The group \<^verbatim>\<open>(.+)\<close> is greedy: it first takes all the wildcard characters there are and
  gives them back one at a time until the rest of the pattern matches; it keeps one at least.
\<close>

fun try_group :: "atom list \<Rightarrow> string \<Rightarrow> nat \<Rightarrow> string option" where
  "try_group sfx rest 0 = None"
| "try_group sfx rest (Suc k) =
     (if match_atoms sfx (drop (Suc k) rest) then Some (take (Suc k) rest)
      else try_group sfx rest k)"

text \<open>\<^verbatim>\<open>re.exec(s)\<close> tries every start from the left; the result is group 1 of the first match.\<close>

fun re_exec :: "atom list \<Rightarrow> string \<Rightarrow> string option" where
  "re_exec sfx [] = None"
| "re_exec sfx (c # cs) =
     (if starts_with ''terraform_'' (c # cs) then
        (case try_group sfx (drop 10 (c # cs)) (length (takeWhile wildcard (drop 10 (c # cs)))) of
           Some g \<Rightarrow> Some g
         | None \<Rightarrow> re_exec sfx cs)
      else re_exec sfx cs)"

text \<open>\<^verbatim>\<open>re.exec(...)[1]\<close>: indexing the \<^verbatim>\<open>null\<close> of a failed match is a \<^verbatim>\<open>TypeError\<close>.\<close>

definition getVersion :: "env \<Rightarrow> string \<Rightarrow> error + string" where
  "getVersion E file =
     (case re_exec (suffix_atoms (EXE_SUFFIX E)) (basename E file) of
        None \<Rightarrow> Inl TypeError
      | Some g \<Rightarrow> Inr g)"

text \<open>\<^verbatim>\<open>files.map(getVersion)\<close>: the first file that throws ends the map.\<close>

fun map_getVersion :: "env \<Rightarrow> string list \<Rightarrow> error + string list" where
  "map_getVersion E [] = Inr []"
| "map_getVersion E (f # fs) =
     (case getVersion E f of
        Inl e \<Rightarrow> Inl e
      | Inr v \<Rightarrow> (case map_getVersion E fs of Inl e \<Rightarrow> Inl e | Inr vs \<Rightarrow> Inr (v # vs)))"

subsection \<open>The version store (lines 76 to 87 and 157 to 209)\<close>

definition isInstalled :: "env \<Rightarrow> string \<Rightarrow> bool io" where
  "isInstalled E version =
     catch (bind (fs_stat E (getPath E version)) (\<lambda>_. ret True))
       (\<lambda>err. if code err = Some ENOENT then ret False else throw err)"

definition getCurrent :: "env \<Rightarrow> string option io" where
  "getCurrent E =
     catch (bind (fs_readlink E (CURRENT_LINK E)) (\<lambda>file.
            bind (lift (getVersion E file)) (\<lambda>v. ret (Some v))))
       (\<lambda>err. if code err = Some ENOENT then ret None else throw err)"

text \<open>
  \<^verbatim>\<open>setCurrent\<close>: the second handler has no \<^verbatim>\<open>else\<close>, so it ends normally for every error
  whose code is not \<^verbatim>\<open>EPERM\<close>.
\<close>

definition setCurrent :: "env \<Rightarrow> string option \<Rightarrow> unit io" where
  "setCurrent E version =
     bind (catch (fs_unlink E (CURRENT_LINK E))
             (\<lambda>err. if code err \<noteq> Some ENOENT then throw err else ret ()))
       (\<lambda>_. catch (case version of
                     None \<Rightarrow> ret ()
                   | Some v \<Rightarrow> fs_symlink E (getPath E v) (CURRENT_LINK E))
               (\<lambda>err. if code err = Some EPERM then throw InsufficientPermissions else ret ()))"

definition uninstall :: "env \<Rightarrow> string \<Rightarrow> unit io" where
  "uninstall E version =
     bind (getCurrent E) (\<lambda>cur.
     bind (if cur = Some version then setCurrent E None else ret ()) (\<lambda>_.
     fs_unlink E (getPath E version)))"

text \<open>
  \<^verbatim>\<open>list\<close> of the source. \<^verbatim>\<open>Array.prototype.sort\<close> without a comparator orders strings by
  their code units, which is the lexicographic order of the character lists.
\<close>

definition list_versions :: "env \<Rightarrow> string list io" where
  "list_versions E =
     catch (bind (fs_readdir E (VERSIONS_DIR E)) (\<lambda>files.
            bind (lift (map_getVersion E files)) (\<lambda>vs. ret (sort vs))))
       (\<lambda>err. if code err = Some ENOENT then ret [] else throw err)"

subsection \<open>The streaming hasher (\<^verbatim>\<open>sha256Stream.js\<close>)\<close>

text \<open>
  The state of \<^verbatim>\<open>crypto.createHash('sha256')\<close> is modelled by the bytes it has been fed;
  \<^verbatim>\<open>_transform\<close> updates it and pushes the chunk on, unchanged; \<^verbatim>\<open>digest\<close> hashes what was
  fed.
\<close>

record sha256Stream =
  hash_state :: string

definition sha256Stream_new :: sha256Stream where
  "sha256Stream_new = \<lparr>hash_state = []\<rparr>"

definition transform :: "sha256Stream \<Rightarrow> string \<Rightarrow> sha256Stream \<times> string" where
  "transform hs data = (hs\<lparr>hash_state := hash_state hs @ data\<rparr>, data)"

definition digest :: "env \<Rightarrow> sha256Stream \<Rightarrow> string" where
  "digest E hs = sha256_hex E (hash_state hs)"

text \<open>
  \<^verbatim>\<open>req.pipe(hashStream).pipe(unzipStream)\<close>: every chunk of the response goes through the
  hasher, and what the hasher pushes is the input of the extractor.
\<close>

fun pipe_chunks :: "sha256Stream \<Rightarrow> string list \<Rightarrow> sha256Stream \<times> string" where
  "pipe_chunks hs [] = (hs, [])"
| "pipe_chunks hs (c # cs) =
     (case transform hs c of
        (hs', d) \<Rightarrow> (case pipe_chunks hs' cs of (hs'', ds) \<Rightarrow> (hs'', d @ ds)))"

subsection \<open>The checksums manifest (lines 89 to 114)\<close>

text \<open>
  \<^verbatim>\<open>s.split(sep)\<close> for a separator that is not empty (the two calls of the source split at
  a line feed and at two spaces): the string is cut at every occurrence of the separator,
  found from the left, and occurrences do not overlap.
\<close>

function js_split_from :: "string \<Rightarrow> string \<Rightarrow> string \<Rightarrow> string list" where
  "js_split_from sep acc [] = [rev acc]"
| "js_split_from sep acc (c # cs) =
     (if sep \<noteq> [] \<and> starts_with sep (c # cs)
      then rev acc # js_split_from sep [] (drop (length sep) (c # cs))
      else js_split_from sep (c # acc) cs)"
  by pat_completeness auto
termination
  by (relation "measure (\<lambda>(sep, acc, s). length s)") auto

definition js_split :: "string \<Rightarrow> string \<Rightarrow> string list" where
  "js_split s sep = js_split_from sep [] s"

text \<open>An array element, \<^verbatim>\<open>undefined\<close> (\<open>None\<close>) beyond the end.\<close>

definition element :: "'a list \<Rightarrow> nat \<Rightarrow> 'a option" where
  "element xs i = (if i < length xs then Some (xs ! i) else None)"

text \<open>
  The \<^verbatim>\<open>Map\<close> built from the rows: \<^verbatim>\<open>const [hash, name] = row.split('  ')\<close> and
  \<^verbatim>\<open>sumsMap.set(name, hash)\<close>. A row without two spaces has the name \<^verbatim>\<open>undefined\<close>.
\<close>

definition sumsMap :: "string \<Rightarrow> (string option \<rightharpoonup> string option)" where
  "sumsMap txt =
     fold (\<lambda>row m. m(element (js_split row ''  '') 1 \<mapsto> element (js_split row ''  '') 0))
       (js_split txt [CHR 0x0A]) Map.empty"

text \<open>\<^verbatim>\<open>Map.prototype.get\<close>: \<^verbatim>\<open>undefined\<close> for a key that is not there.\<close>

definition Map_get :: "('k \<rightharpoonup> 'v option) \<Rightarrow> 'k \<Rightarrow> 'v option" where
  "Map_get m k = (case m k of None \<Rightarrow> None | Some v \<Rightarrow> v)"

text \<open>
  \<^verbatim>\<open>fetchSum\<close>. Both requests are sent before either is awaited; when both fail, the error
  of the manifest request is the one thrown. The message given to
  \<^verbatim>\<open>openpgp.verify\<close> is the text of the response as it is. \<^verbatim>\<open>result.signatures[0]\<close> is
  \<^verbatim>\<open>undefined\<close> when there is no signature, and reading its \<^verbatim>\<open>verified\<close> throws. The result
  is a digest or \<^verbatim>\<open>undefined\<close>.
\<close>

definition fetchSum :: "env \<Rightarrow> string \<Rightarrow> string option io" where
  "fetchSum E version =
     bind (emit (HttpGet (getSumsUrl version))) (\<lambda>_.
     bind (emit (HttpGet (getSigUrl version))) (\<lambda>_.
     bind (lift (http_get E (getSumsUrl version))) (\<lambda>sumsRes.
     bind (lift (http_get E (getSigUrl version))) (\<lambda>sigRes.
     bind (lift (pgp_verify E (publicKey E) (res_text sumsRes) (res_body sigRes))) (\<lambda>signatures.
     bind (case signatures of [] \<Rightarrow> throw TypeError | verified # _ \<Rightarrow> ret verified) (\<lambda>verified.
     if \<not> verified then throw SignatureVerificationFailed
     else bind (lift (getZipName E version)) (\<lambda>zipName.
          ret (Map_get (sumsMap (res_text sumsRes)) (Some zipName)))))))))"

subsection \<open>The install pipeline (lines 116 to 155)\<close>

text \<open>
  The promise that \<^verbatim>\<open>install\<close> awaits first. The request is sent; on a response with status
  200 the write stream is created (which creates the file), the body flows through the hasher
  and the extractor into the file, and the promise resolves with the hex digest of the hasher
  when the write stream finishes. It rejects on an error of the request, of the extractor or of
  the write stream, and for every other status after aborting the request.
\<close>

definition install_download :: "env \<Rightarrow> string \<Rightarrow> string \<Rightarrow> string io" where
  "install_download E version outputPath =
     bind (lift (getExeUrl E version)) (\<lambda>url.
     bind (emit (HttpGet url)) (\<lambda>_.
     case http_stream E url of
       RequestError e \<Rightarrow> throw e
     | Response st chunks err \<Rightarrow>
         if st = 200 then
           bind (fs_createWriteStream E outputPath) (\<lambda>_.
           case pipe_chunks sha256Stream_new chunks of (hashStream, archive) \<Rightarrow>
           case unzip_ParseOne E archive of (extracted, unzip_err) \<Rightarrow>
           bind (fs_write E outputPath extracted) (\<lambda>_.
           case err of
             Some e \<Rightarrow> throw e
           | None \<Rightarrow>
               (case unzip_err of
                  Some e \<Rightarrow> throw e
                | None \<Rightarrow> ret (digest E hashStream))))
         else bind (emit (HttpAbort url)) (\<lambda>_. throw (DownloadFailed st))))"

definition install :: "env \<Rightarrow> string \<Rightarrow> unit io" where
  "install E version =
     bind (fs_mkdir_recursive E (VERSIONS_DIR E)) (\<lambda>_.
     bind (install_download E version (getPath E version)) (\<lambda>actualSum.
     catch
       (bind (fetchSum E version) (\<lambda>expectedSum.
        bind (if Some actualSum \<noteq> expectedSum then throw HashVerificationFailed else ret ()) (\<lambda>_.
        fs_chmod E (getPath E version) ''755'')))
       (\<lambda>err. bind (fs_unlink E (getPath E version)) (\<lambda>_. throw err))))"

text \<open>
  \<^verbatim>\<open>install\<close> of the earlier snapshot (lines 111 to 150 there): it checks \<^verbatim>\<open>isInstalled\<close>
  itself, and it deletes the file on a digest mismatch only. Its \<^verbatim>\<open>downloadSum\<close> is
  \<^verbatim>\<open>fetchSum\<close> under another name.
\<close>

definition install_earlier :: "env \<Rightarrow> string \<Rightarrow> unit io" where
  "install_earlier E version =
     bind (isInstalled E version) (\<lambda>installed.
     if installed then ret ()
     else
       bind (fs_mkdir_recursive E (VERSIONS_DIR E)) (\<lambda>_.
       bind (install_download E version (getPath E version)) (\<lambda>calculatedSum.
       bind (fetchSum E version) (\<lambda>downloadedSum.
       if Some calculatedSum \<noteq> downloadedSum
       then bind (fs_unlink E (getPath E version)) (\<lambda>_. throw HashVerificationFailed)
       else fs_chmod E (getPath E version) ''755''))))"

subsection \<open>The commands (lines 226 to 260)\<close>

text \<open>
  \<open>argv\<close> is the \<^verbatim>\<open>version\<close> of the parsed arguments; \<open>None\<close> stands for a call without
  arguments, where reading \<^verbatim>\<open>argv.version\<close> throws.
\<close>

definition useCommand :: "env \<Rightarrow> string option \<Rightarrow> unit io" where
  "useCommand E argv =
     (case argv of
        None \<Rightarrow> throw TypeError
      | Some version \<Rightarrow>
          bind (isInstalled E version) (\<lambda>installed.
          if \<not> installed then throw (NotInstalled version)
          else bind (setCurrent E (Some version)) (\<lambda>_.
               emit (Console (''Now using version '' @ version)))))"

definition installCommand :: "env \<Rightarrow> string \<Rightarrow> unit io" where
  "installCommand E version =
     bind (isInstalled E version) (\<lambda>installed.
     if installed then emit (Console (''Version '' @ version @ '' already installed''))
     else
       bind (emit (Console (''Downloading version '' @ version @ ''...''))) (\<lambda>_.
       bind (install E version) (\<lambda>_.
       bind (emit (Console ''Complete'')) (\<lambda>_.
       bind (getCurrent E) (\<lambda>cur.
       if cur = None then useCommand E None else ret ())))))"

definition uninstallCommand :: "env \<Rightarrow> string \<Rightarrow> unit io" where
  "uninstallCommand E version =
     bind (isInstalled E version) (\<lambda>installed.
     if \<not> installed then throw (NotInstalled version)
     else
       bind (emit (Console (''Uninstalling version '' @ version @ ''...''))) (\<lambda>_.
       bind (uninstall E version) (\<lambda>_.
       bind (emit (Console ''Complete'')) (\<lambda>_.
       bind (getCurrent E) (\<lambda>cur.
       if cur = None then emit (Console ''WARNING: No version is set'') else ret ())))))"

section \<open>Concrete hosts and stores\<close>

text \<open>
  A Linux host whose system calls never fail by injection. The release server has version
  1.5.0: its archive is the two chunks \<open>PK\<close> and \<open>exe\<close>, and the manifest lists the archives
  for two platforms. The stand-ins for the libraries are toys: the extractor strips the two
  bytes \<open>PK\<close>, the digest wraps its input, and a signature verifies when it is \<open>SIGNED\<close> and
  the key is the pinned one.
\<close>

definition release_host :: env where
  "release_host =
     \<lparr>os_platform = ''linux'', os_arch = ''x64'', os_homedir = ''/h'',
      fault = (\<lambda>_. None),
      http_get = (\<lambda>url.
        if url = ''https://releases.hashicorp.com/terraform/1.5.0/terraform_1.5.0_SHA256SUMS''
        then Inr \<lparr>status = 200,
                  res_text = ''0f  terraform_1.5.0_darwin_amd64.zip'' @ [CHR 0x0A] @
                             ''sha(PKexe)  terraform_1.5.0_linux_amd64.zip'' @ [CHR 0x0A],
                  res_body = []\<rparr>
        else if url = ''https://releases.hashicorp.com/terraform/1.5.0/terraform_1.5.0_SHA256SUMS.sig''
        then Inr \<lparr>status = 200, res_text = [], res_body = ''SIGNED''\<rparr>
        else Inl (LibraryError ''Not Found'')),
      http_stream = (\<lambda>url.
        if url = ''https://releases.hashicorp.com/terraform/1.5.0/terraform_1.5.0_linux_amd64.zip''
        then Response 200 [''PK'', ''exe''] None
        else Response 404 [] None),
      unzip_ParseOne = (\<lambda>s. if take 2 s = ''PK'' then (drop 2 s, None)
                             else ([], Some (LibraryError ''invalid signature''))),
      sha256_hex = (\<lambda>s. ''sha('' @ s @ '')''),
      pgp_verify = (\<lambda>k m s. Inr [k = ''KEY'' \<and> s = ''SIGNED'']),
      publicKey = ''KEY''\<rparr>"

text \<open>
  Variations of the host: a signature that does not verify; a manifest that lists the digest
  of the extracted executable instead of the archive's; a 32-bit host, whose archive the
  manifest does not list; a response that is not an archive; a host where creating a link is
  denied.
\<close>

definition forged_signature :: env where
  "forged_signature =
     release_host\<lparr>http_get := (\<lambda>url.
        if url = ''https://releases.hashicorp.com/terraform/1.5.0/terraform_1.5.0_SHA256SUMS.sig''
        then Inr \<lparr>status = 200, res_text = [], res_body = ''FORGED''\<rparr>
        else http_get release_host url)\<rparr>"

definition digest_of_executable :: env where
  "digest_of_executable =
     release_host\<lparr>http_get := (\<lambda>url.
        if url = ''https://releases.hashicorp.com/terraform/1.5.0/terraform_1.5.0_SHA256SUMS''
        then Inr \<lparr>status = 200,
                  res_text = ''sha(exe)  terraform_1.5.0_linux_amd64.zip'' @ [CHR 0x0A],
                  res_body = []\<rparr>
        else http_get release_host url)\<rparr>"

definition unlisted_arch :: env where
  "unlisted_arch =
     release_host\<lparr>os_arch := ''ia32'', http_stream := (\<lambda>_. Response 200 [''PK'', ''exe''] None)\<rparr>"

definition corrupt_archive :: env where
  "corrupt_archive = release_host\<lparr>http_stream := (\<lambda>_. Response 200 [''<html>''] None)\<rparr>"

fun symlink_denied :: "syscall \<Rightarrow> errno option" where
  "symlink_denied (Symlink t p) = Some EACCES"
| "symlink_denied _ = None"

text \<open>
  Two more verifiers: one that throws, as the library does for a signature whose digest does
  not match the message, and one whose result holds no signature. And a Windows host.
\<close>

definition verifier_throws :: env where
  "verifier_throws =
     release_host\<lparr>pgp_verify := (\<lambda>k m s. Inl (LibraryError ''Message digest did not match''))\<rparr>"

definition no_signature :: env where
  "no_signature = release_host\<lparr>pgp_verify := (\<lambda>k m s. Inr [])\<rparr>"

definition windows_host :: env where
  "windows_host =
     release_host\<lparr>os_platform := ''win32'',
                  os_homedir := ''C:'' @ CHR 0x5C # ''Users'' @ CHR 0x5C # ''u''\<rparr>"

text \<open>
  Stores: nothing at all; two installed versions, without and with a current link; a versions
  directory with a file that is no version; and the worlds an installation of 1.5.0 goes
  through after \<^verbatim>\<open>mkdir\<close> and after the download.
\<close>

definition empty_world :: world where
  "empty_world = \<lparr>nodes = [], trace = []\<rparr>"

definition two_versions :: world where
  "two_versions =
     \<lparr>nodes = [(''/h/.tfvm/versions'', Dir),
               (''/h/.tfvm/versions/terraform_1.5.0'', File ''new'' ''755''),
               (''/h/.tfvm/versions/terraform_0.12.1'', File ''old'' ''755'')],
      trace = []\<rparr>"

definition active_store :: world where
  "active_store =
     \<lparr>nodes = [(''/h/.tfvm/versions'', Dir),
               (''/h/.tfvm/versions/terraform_1.5.0'', File ''new'' ''755''),
               (''/h/.tfvm/versions/terraform_0.12.1'', File ''old'' ''755''),
               (''/h/.tfvm/terraform'', Link ''/h/.tfvm/versions/terraform_1.5.0'')],
      trace = []\<rparr>"

definition foreign_file :: world where
  "foreign_file =
     \<lparr>nodes = [(''/h/.tfvm/versions'', Dir),
               (''/h/.tfvm/versions/terraform_1.5.0'', File ''new'' ''755''),
               (''/h/.tfvm/versions/notes.txt'', File ''hello'' ''644'')],
      trace = []\<rparr>"

definition versions_dir_only :: world where
  "versions_dir_only =
     \<lparr>nodes = [(''/h/.tfvm/versions'', Dir)], trace = [Sys (Mkdir ''/h/.tfvm/versions'')]\<rparr>"

definition downloaded :: world where
  "downloaded =
     \<lparr>nodes = [(''/h/.tfvm/versions'', Dir),
               (''/h/.tfvm/versions/terraform_1.5.0'', File ''exe'' ''644'')],
      trace = [Sys (Mkdir ''/h/.tfvm/versions''),
               HttpGet ''https://releases.hashicorp.com/terraform/1.5.0/terraform_1.5.0_linux_amd64.zip'',
               Sys (Open ''/h/.tfvm/versions/terraform_1.5.0''),
               Sys (Write ''/h/.tfvm/versions/terraform_1.5.0'')]\<rparr>"

definition downloaded_386 :: world where
  "downloaded_386 =
     \<lparr>nodes = [(''/h/.tfvm/versions'', Dir),
               (''/h/.tfvm/versions/terraform_1.5.0'', File ''exe'' ''644'')],
      trace = [Sys (Mkdir ''/h/.tfvm/versions''),
               HttpGet ''https://releases.hashicorp.com/terraform/1.5.0/terraform_1.5.0_linux_386.zip'',
               Sys (Open ''/h/.tfvm/versions/terraform_1.5.0''),
               Sys (Write ''/h/.tfvm/versions/terraform_1.5.0'')]\<rparr>"

text \<open>The store of the Windows host, and a store with a file that the Finder left.\<close>

definition windows_store :: world where
  "windows_store =
     \<lparr>nodes = [(VERSIONS_DIR windows_host, Dir),
               (getPath windows_host ''1.5.0'', File ''new'' ''755''),
               (getPath windows_host ''0.12.1'', File ''old'' ''755'')],
      trace = []\<rparr>"

definition stray_file :: world where
  "stray_file =
     \<lparr>nodes = [(''/h/.tfvm/versions'', Dir),
               (''/h/.tfvm/versions/terraform_1.5.0'', File ''new'' ''755''),
               (''/h/.tfvm/versions/.DS_Store'', File ''Bud1'' ''644'')],
      trace = []\<rparr>"

section \<open>Properties\<close>

text \<open>The definitions that evaluate a run on a concrete host and world.\<close>

lemmas io_defs = bind_def catch_def ret_def throw_def lift_def emit_def sys_def

lemmas eval_defs = io_defs
  fs_readdir_def fs_stat_def fs_readlink_def fs_unlink_def fs_symlink_def fs_chmod_def
  fs_mkdir_recursive_def fs_createWriteStream_def fs_write_def
  VERSIONS_DIR_def INSTALL_DIR_def CURRENT_LINK_def getPath_def path_join_def path_sep_def
  children_def is_child_def is_sep_def getVersion_def basename_def EXE_SUFFIX_def
  suffix_atoms_def wildcard_def
  getArch_def getPlatform_def getZipName_def getExeUrl_def getSumsUrl_def getSigUrl_def
  isInstalled_def getCurrent_def setCurrent_def uninstall_def
  sha256Stream_new_def transform_def digest_def js_split_def element_def sumsMap_def Map_get_def
  fetchSum_def install_download_def install_def install_earlier_def
  useCommand_def installCommand_def uninstallCommand_def

subsection \<open>Extraction of the version token\<close>

lemma map_getVersion_fails:
  "f \<in> set fs \<Longrightarrow> getVersion E f = Inl TypeError \<Longrightarrow> \<exists>e. map_getVersion E fs = Inl e"
  by (induction fs) (auto split: sum.splits)

lemma getVersion_error: "getVersion E f = Inl e \<Longrightarrow> e = TypeError"
  by (auto simp: getVersion_def split: option.splits)

lemma map_getVersion_error: "map_getVersion E fs = Inl e \<Longrightarrow> e = TypeError"
  by (induction fs arbitrary: e) (auto split: sum.splits dest: getVersion_error)

lemma map_getVersion_ok:
  "(\<forall>f \<in> set fs. \<exists>v. getVersion E f = Inr v) \<Longrightarrow> \<exists>vs. map_getVersion E fs = Inr vs"
  by (induction fs) (auto split: sum.splits)

lemma map_getVersion_all2:
  "map_getVersion E fs = Inr vs \<longleftrightarrow> list_all2 (\<lambda>f v. getVersion E f = Inr v) fs vs"
proof (induction fs arbitrary: vs)
  case Nil
  show ?case by auto
next
  case (Cons f fs)
  show ?case
    by (cases vs) (auto simp: Cons.IH [symmetric] split: sum.splits)
qed

text \<open>
  The token of a file that is named after a version. The suffix matches itself, and after a
  longer group too few characters are left for it, so the greedy group comes back to the
  version exactly.
\<close>

lemma match_atoms_suffix: "match_atoms (suffix_atoms s) (s @ t)"
  by (induction s) (simp_all add: suffix_atoms_def wildcard_def)

lemma match_atoms_short: "length s < length as \<Longrightarrow> \<not> match_atoms as s"
  by (induction as s rule: match_atoms.induct) simp_all

lemma try_group_backtrack:
  assumes "v \<noteq> []" and "length s = length as" and "match_atoms as s"
  shows "j \<le> length s \<Longrightarrow> try_group as (v @ s) (length v + j) = Some v"
proof (induction j)
  case 0
  from assms(1) obtain n where n: "length v = Suc n"
    by (cases v) auto
  have "drop (Suc n) (v @ s) = s" and "take (Suc n) (v @ s) = v"
    using n by simp_all
  then have "try_group as (v @ s) (Suc n) = Some v"
    using assms(3) by (simp del: drop_append take_append)
  with n show ?case by simp
next
  case (Suc j)
  have "length (drop (Suc (length v + j)) (v @ s)) < length as"
    using Suc.prems assms(2) by simp
  then have "\<not> match_atoms as (drop (Suc (length v + j)) (v @ s))"
    by (rule match_atoms_short)
  with Suc show ?case by simp
qed

lemma basename_id:
  assumes "\<forall>c \<in> set p. \<not> is_sep E c"
  shows "basename E p = p"
proof -
  have d: "dropWhile (is_sep E) (rev p) = rev p"
    using assms by (cases "rev p") (auto simp: in_set_conv_decomp)
  have "\<forall>c \<in> set (rev p). \<not> is_sep E c"
    using assms by simp
  then have t: "takeWhile (\<lambda>c. \<not> is_sep E c) (rev p) = rev p"
    by (rule takeWhile_eq_all_conv [THEN iffD2])
  show ?thesis
    unfolding basename_def d t by simp
qed

lemma re_exec_name:
  assumes "v \<noteq> []" and "\<forall>c \<in> set v. wildcard c"
  shows "re_exec (suffix_atoms (EXE_SUFFIX E)) (''terraform_'' @ v @ EXE_SUFFIX E) = Some v"
proof -
  let ?s = "EXE_SUFFIX E"
  have w: "takeWhile wildcard (v @ ?s) = v @ ?s"
    using assms(2) by (auto simp: takeWhile_eq_all_conv EXE_SUFFIX_def wildcard_def)
  have "try_group (suffix_atoms ?s) (v @ ?s) (length v + length ?s) = Some v"
    using try_group_backtrack [OF assms(1), of ?s "suffix_atoms ?s" "length ?s"]
      match_atoms_suffix [of ?s "[]"]
    by (simp add: suffix_atoms_def)
  then show ?thesis
    by (simp add: w)
qed

lemma getVersion_name:
  assumes "v \<noteq> []" and "\<forall>c \<in> set v. wildcard c" and "\<forall>c \<in> set v. \<not> is_sep E c"
  shows "getVersion E (''terraform_'' @ v @ EXE_SUFFIX E) = Inr v"
proof -
  have "\<forall>c \<in> set (''terraform_'' @ v @ EXE_SUFFIX E). \<not> is_sep E c"
    using assms(3) by (auto simp: is_sep_def EXE_SUFFIX_def)
  then have "basename E (''terraform_'' @ v @ EXE_SUFFIX E) = ''terraform_'' @ v @ EXE_SUFFIX E"
    by (rule basename_id)
  then show ?thesis
    using re_exec_name [OF assms(1,2), of E] by (simp add: getVersion_def)
qed

lemma getPath_version_file: "getPath E v = path_join E (VERSIONS_DIR E) (version_file E v)"
  by (simp add: getPath_def version_file_def)

lemma getVersion_version_file:
  assumes "v \<noteq> []" and "\<forall>c \<in> set v. wildcard c" and "\<forall>c \<in> set v. \<not> is_sep E c"
  shows "getVersion E (version_file E v) = Inr v"
  unfolding version_file_def using assms by (rule getVersion_name)

lemma version_file_no_sep:
  assumes "\<forall>c \<in> set (version_file E v). \<not> is_sep E c"
  shows "\<forall>c \<in> set v. \<not> is_sep E c"
  using assms by (simp add: version_file_def)

lemma map_getVersion_names:
  assumes "\<forall>v \<in> set vs. v \<noteq> [] \<and> (\<forall>c \<in> set v. wildcard c) \<and> (\<forall>c \<in> set v. \<not> is_sep E c)"
  shows "map_getVersion E (map (version_file E) vs) = Inr vs"
  using assms by (induction vs) (simp_all add: getVersion_version_file)

text \<open>The names that \<^verbatim>\<open>readdir\<close> lists hold no separator.\<close>

lemma readdir_names:
  assumes "fs_readdir E d w = (Inr files, w')"
  shows "\<forall>f \<in> set files. \<forall>c \<in> set f. \<not> is_sep E c"
  using assms
  by (auto simp: fs_readdir_def sys_def Let_def children_def is_child_def list_ex_iff
      split: option.splits node.splits)

subsection \<open>\<^verbatim>\<open>list\<close>\<close>

lemma list_versions_ok:
  assumes "fs_readdir E (VERSIONS_DIR E) w = (Inr files, w')"
      and "map_getVersion E files = Inr vs"
  shows "list_versions E w = (Inr (sort vs), w')"
  using assms by (simp add: list_versions_def catch_def bind_def lift_def ret_def)

lemma list_versions_TypeError:
  assumes "fs_readdir E (VERSIONS_DIR E) w = (Inr files, w')"
      and "map_getVersion E files = Inl e"
  shows "list_versions E w = (Inl TypeError, w')"
  using assms map_getVersion_error [OF assms(2)]
  by (simp add: list_versions_def catch_def bind_def lift_def throw_def)

lemma list_versions_readdir_error:
  assumes "fs_readdir E (VERSIONS_DIR E) w = (Inl e, w')"
  shows "list_versions E w = (if code e = Some ENOENT then (Inr [], w') else (Inl e, w'))"
  using assms by (simp add: list_versions_def catch_def bind_def ret_def throw_def)

lemma getVersion_None_iff:
  "getVersion E f = Inl TypeError \<longleftrightarrow>
   re_exec (suffix_atoms (EXE_SUFFIX E)) (basename E f) = None"
  by (simp add: getVersion_def split: option.splits)

text \<open>
  Claim C9, as stated, fails: the versions directory exists, \<^verbatim>\<open>readdir\<close> succeeds, and
  \<^verbatim>\<open>list\<close> returns no sequence at all, because one file is not named after a version.
\<close>

theorem list_stray_file_counterexample:
  "fs_readdir release_host (VERSIONS_DIR release_host) stray_file =
     (Inr [''terraform_1.5.0'', ''.DS_Store''],
      stray_file\<lparr>trace := [Sys (Readdir ''/h/.tfvm/versions'')]\<rparr>) \<and>
   fst (list_versions release_host stray_file) = Inl TypeError"
  by (simp add: release_host_def stray_file_def list_versions_def eval_defs)

text \<open>
  Claim C9, amended. When the names that \<^verbatim>\<open>readdir\<close> gives for the versions directory are
  \<open>terraform_\<close>, a version and the executable suffix, for versions \<open>vs\<close> that are not empty
  and hold no line terminator, \<^verbatim>\<open>list\<close> returns \<open>vs\<close> sorted in the lexicographic order of
  strings: the token extracted from each name is its version, on every platform. More
  generally it returns, sorted, the tokens that \<^verbatim>\<open>getVersion\<close> extracts when it extracts one
  from every name. When the versions directory does not exist, \<^verbatim>\<open>list\<close> returns the empty
  sequence. When \<^verbatim>\<open>readdir\<close> fails with a system error whose code is not \<open>ENOENT\<close>,
  \<^verbatim>\<open>list\<close> fails with that error.
\<close>

theorem list_sorted_tokens:
  "(fs_readdir E (VERSIONS_DIR E) w =
      (Inr (map (version_file E) vs), w') \<and>
    (\<forall>v \<in> set vs. v \<noteq> [] \<and> (\<forall>c \<in> set v. wildcard c))
      \<longrightarrow> list_versions E w = (Inr (sort vs), w') \<and> sorted (sort vs) \<and> set (sort vs) = set vs
          \<and> length (sort vs) = length vs) \<and>
   (fs_readdir E (VERSIONS_DIR E) w = (Inr files, w') \<and>
      list_all2 (\<lambda>f v. getVersion E f = Inr v) files vs
      \<longrightarrow> list_versions E w = (Inr (sort vs), w') \<and> sorted (sort vs) \<and> set (sort vs) = set vs
          \<and> length (sort vs) = length files) \<and>
   (fault E (Readdir (VERSIONS_DIR E)) = None \<and> map_of (nodes w) (VERSIONS_DIR E) = None
      \<longrightarrow> fst (list_versions E w) = Inr []) \<and>
   (fs_readdir E (VERSIONS_DIR E) w = (Inl (SystemError c), w') \<and> c \<noteq> ENOENT
      \<longrightarrow> list_versions E w = (Inl (SystemError c), w'))"
proof (intro conjI impI)
  assume a: "fs_readdir E (VERSIONS_DIR E) w =
      (Inr (map (version_file E) vs), w') \<and>
    (\<forall>v \<in> set vs. v \<noteq> [] \<and> (\<forall>c \<in> set v. wildcard c))"
  then have rd: "fs_readdir E (VERSIONS_DIR E) w =
      (Inr (map (version_file E) vs), w')"
    by simp
  have "\<forall>v \<in> set vs. \<forall>c \<in> set v. \<not> is_sep E c"
  proof (intro ballI)
    fix v c
    assume "v \<in> set vs" and c: "c \<in> set v"
    then have "version_file E v \<in> set (map (version_file E) vs)"
      by simp
    with readdir_names [OF rd]
    have "\<forall>c \<in> set (version_file E v). \<not> is_sep E c"
      by blast
    with c show "\<not> is_sep E c"
      by (simp add: version_file_no_sep)
  qed
  with a have "map_getVersion E (map (version_file E) vs) = Inr vs"
    by (simp add: map_getVersion_names)
  with rd show "list_versions E w = (Inr (sort vs), w')"
    by (rule list_versions_ok)
  show "sorted (sort vs)" by simp
  show "set (sort vs) = set vs" by simp
  show "length (sort vs) = length vs" by simp
next
  assume a: "fs_readdir E (VERSIONS_DIR E) w = (Inr files, w') \<and>
      list_all2 (\<lambda>f v. getVersion E f = Inr v) files vs"
  then have "map_getVersion E files = Inr vs"
    by (simp add: map_getVersion_all2)
  with a show "list_versions E w = (Inr (sort vs), w')"
    by (simp add: list_versions_ok)
  show "sorted (sort vs)" by simp
  show "set (sort vs) = set vs" by simp
  from a show "length (sort vs) = length files"
    by (auto dest: list_all2_lengthD)
next
  assume "fault E (Readdir (VERSIONS_DIR E)) = None \<and> map_of (nodes w) (VERSIONS_DIR E) = None"
  then have "fs_readdir E (VERSIONS_DIR E) w =
      (Inl (SystemError ENOENT), w\<lparr>trace := trace w @ [Sys (Readdir (VERSIONS_DIR E))]\<rparr>)"
    by (simp add: fs_readdir_def sys_def)
  then show "fst (list_versions E w) = Inr []"
    by (simp add: list_versions_readdir_error)
next
  assume "fs_readdir E (VERSIONS_DIR E) w = (Inl (SystemError c), w') \<and> c \<noteq> ENOENT"
  then show "list_versions E w = (Inl (SystemError c), w')"
    by (simp add: list_versions_readdir_error)
qed

text \<open>
  The cases at work: a store with versions 1.5.0 and 0.12.1 (in this directory order) on Linux
  and on Windows, where the files end in \<open>.exe\<close>; a world without a versions directory; and
  a host where \<^verbatim>\<open>readdir\<close> is denied.
\<close>

theorem list_sorted_tokens_witness:
  "list_versions release_host two_versions =
     (Inr [''0.12.1'', ''1.5.0''], two_versions\<lparr>trace := [Sys (Readdir ''/h/.tfvm/versions'')]\<rparr>) \<and>
   version_file windows_host ''1.5.0'' = ''terraform_1.5.0.exe'' \<and>
   list_versions windows_host windows_store =
     (Inr [''0.12.1'', ''1.5.0''],
      windows_store\<lparr>trace := [Sys (Readdir (VERSIONS_DIR windows_host))]\<rparr>) \<and>
   fst (list_versions release_host empty_world) = Inr [] \<and>
   list_versions (release_host\<lparr>fault := (\<lambda>_. Some EACCES)\<rparr>) two_versions =
     (Inl (SystemError EACCES), two_versions\<lparr>trace := [Sys (Readdir ''/h/.tfvm/versions'')]\<rparr>)"
proof -
  let ?w' = "two_versions\<lparr>trace := [Sys (Readdir ''/h/.tfvm/versions'')]\<rparr>"
  let ?ww' = "windows_store\<lparr>trace := [Sys (Readdir (VERSIONS_DIR windows_host))]\<rparr>"
  let ?denied = "release_host\<lparr>fault := (\<lambda>_. Some EACCES)\<rparr>"
  have rd: "fs_readdir release_host (VERSIONS_DIR release_host) two_versions =
      (Inr [''terraform_1.5.0'', ''terraform_0.12.1''], ?w')"
    by (simp add: release_host_def two_versions_def eval_defs)
  have names: "map (version_file release_host) [''1.5.0'', ''0.12.1''] =
      [''terraform_1.5.0'', ''terraform_0.12.1'']"
    by (simp add: version_file_def release_host_def EXE_SUFFIX_def)
  have wnames: "map (version_file windows_host) [''1.5.0'', ''0.12.1''] =
      [''terraform_1.5.0.exe'', ''terraform_0.12.1.exe'']"
    by (simp add: version_file_def windows_host_def release_host_def EXE_SUFFIX_def)
  have wrd: "fs_readdir windows_host (VERSIONS_DIR windows_host) windows_store =
      (Inr [''terraform_1.5.0.exe'', ''terraform_0.12.1.exe''], ?ww')"
    by (simp add: windows_store_def windows_host_def release_host_def eval_defs)
  have ok: "\<forall>v \<in> set [''1.5.0'', ''0.12.1'']. v \<noteq> [] \<and> (\<forall>c \<in> set v. wildcard c)"
    by (simp add: wildcard_def)
  have toks: "list_all2 (\<lambda>f v. getVersion release_host f = Inr v)
      [''terraform_1.5.0'', ''terraform_0.12.1''] [''1.5.0'', ''0.12.1'']"
    by (simp add: release_host_def eval_defs)
  have srt: "sort [''1.5.0'', ''0.12.1''] = [''0.12.1'', ''1.5.0'']"
    by code_simp
  have absent: "fault release_host (Readdir (VERSIONS_DIR release_host)) = None \<and>
      map_of (nodes empty_world) (VERSIONS_DIR release_host) = None"
    by (simp add: release_host_def empty_world_def)
  have denied: "fs_readdir ?denied (VERSIONS_DIR ?denied) two_versions =
      (Inl (SystemError EACCES), ?w') \<and> EACCES \<noteq> ENOENT"
    by (simp add: release_host_def two_versions_def eval_defs)
  from list_sorted_tokens [where E = release_host and w = two_versions and w' = ?w'
      and files = "[''terraform_1.5.0'', ''terraform_0.12.1'']"
      and vs = "[''1.5.0'', ''0.12.1'']"] rd toks
  have "list_versions release_host two_versions = (Inr (sort [''1.5.0'', ''0.12.1'']), ?w')"
    by blast
  with srt have 1: "list_versions release_host two_versions = (Inr [''0.12.1'', ''1.5.0''], ?w')"
    by simp
  from list_sorted_tokens [where E = release_host and w = two_versions and w' = ?w'
      and vs = "[''1.5.0'', ''0.12.1'']"] rd names ok
  have "list_versions release_host two_versions = (Inr (sort [''1.5.0'', ''0.12.1'']), ?w')"
    by simp
  from list_sorted_tokens [where E = windows_host and w = windows_store and w' = ?ww'
      and vs = "[''1.5.0'', ''0.12.1'']"] wrd wnames ok
  have "list_versions windows_host windows_store = (Inr (sort [''1.5.0'', ''0.12.1'']), ?ww')"
    by simp
  with srt have 4: "list_versions windows_host windows_store = (Inr [''0.12.1'', ''1.5.0''], ?ww')"
    by simp
  from list_sorted_tokens [where E = release_host and w = empty_world] absent
  have 2: "fst (list_versions release_host empty_world) = Inr []"
    by blast
  from list_sorted_tokens [where E = ?denied and w = two_versions and w' = ?w' and c = EACCES] denied
  have 3: "list_versions ?denied two_versions = (Inl (SystemError EACCES), ?w')"
    by blast
  from wnames have 5: "version_file windows_host ''1.5.0'' = ''terraform_1.5.0.exe''"
    by simp
  from 1 2 3 4 5 show ?thesis by simp
qed

text \<open>
  Claim C10. Let \<^verbatim>\<open>readdir\<close> of the versions directory give \<open>files\<close>. If the regular
  expression of \<^verbatim>\<open>getVersion\<close> matches the base name of every file, \<^verbatim>\<open>list\<close> returns a
  result; if there is one file whose base name it does not match, \<^verbatim>\<open>list\<close> throws the
  \<^verbatim>\<open>TypeError\<close> of indexing the failed match: it neither skips the file nor returns the
  empty result.
\<close>

theorem list_throws_on_foreign_file:
  assumes "fs_readdir E (VERSIONS_DIR E) w = (Inr files, w')"
  shows "if \<forall>f \<in> set files. re_exec (suffix_atoms (EXE_SUFFIX E)) (basename E f) \<noteq> None
         then \<exists>vs. list_versions E w = (Inr vs, w')
         else list_versions E w = (Inl TypeError, w')"
proof (cases "\<forall>f \<in> set files. re_exec (suffix_atoms (EXE_SUFFIX E)) (basename E f) \<noteq> None")
  case True
  then have "\<forall>f \<in> set files. \<exists>v. getVersion E f = Inr v"
    by (auto simp: getVersion_def)
  then obtain vs where "map_getVersion E files = Inr vs"
    using map_getVersion_ok by blast
  with assms True show ?thesis
    by (auto dest: list_versions_ok)
next
  case False
  then obtain f where f: "f \<in> set files" "getVersion E f = Inl TypeError"
    by (auto simp: getVersion_None_iff)
  then obtain e where "map_getVersion E files = Inl e"
    using map_getVersion_fails by blast
  with assms False show ?thesis
    by (auto dest: list_versions_TypeError)
qed

text \<open>A versions directory that holds \<^verbatim>\<open>notes.txt\<close> beside an installed version.\<close>

theorem list_throws_on_foreign_file_witness:
  "list_versions release_host foreign_file =
     (Inl TypeError, foreign_file\<lparr>trace := [Sys (Readdir ''/h/.tfvm/versions'')]\<rparr>)"
proof -
  have rd: "fs_readdir release_host (VERSIONS_DIR release_host) foreign_file =
      (Inr [''terraform_1.5.0'', ''notes.txt''],
       foreign_file\<lparr>trace := [Sys (Readdir ''/h/.tfvm/versions'')]\<rparr>)"
    by (simp add: release_host_def foreign_file_def eval_defs)
  show ?thesis
    using list_throws_on_foreign_file [OF rd]
    by (simp add: release_host_def eval_defs)
qed

subsection \<open>The version store\<close>

text \<open>The functions of the store, written out by the cases of their system call.\<close>

lemma isInstalled_eq:
  "isInstalled E v w =
     (let w1 = w\<lparr>trace := trace w @ [Sys (Stat (getPath E v))]\<rparr> in
      case fault E (Stat (getPath E v)) of
        Some e \<Rightarrow> (if e = ENOENT then Inr False else Inl (SystemError e), w1)
      | None \<Rightarrow> (Inr (map_of (nodes w) (getPath E v) \<noteq> None), w1))"
  by (auto simp: isInstalled_def fs_stat_def io_defs Let_def split: option.splits)

lemma isInstalled_world:
  "snd (isInstalled E v w) = w\<lparr>trace := trace w @ [Sys (Stat (getPath E v))]\<rparr>"
  by (simp add: isInstalled_eq Let_def split: option.splits)

lemma getCurrent_eq:
  "getCurrent E w =
     (let w1 = w\<lparr>trace := trace w @ [Sys (Readlink (CURRENT_LINK E))]\<rparr> in
      case fault E (Readlink (CURRENT_LINK E)) of
        Some e \<Rightarrow> (if e = ENOENT then Inr None else Inl (SystemError e), w1)
      | None \<Rightarrow>
          (case map_of (nodes w) (CURRENT_LINK E) of
             None \<Rightarrow> (Inr None, w1)
           | Some (Link t) \<Rightarrow>
               (case getVersion E t of Inl e \<Rightarrow> (Inl TypeError, w1) | Inr g \<Rightarrow> (Inr (Some g), w1))
           | Some _ \<Rightarrow> (Inl (SystemError EINVAL), w1)))"
  by (auto simp: getCurrent_def fs_readlink_def io_defs Let_def
      split: option.splits node.splits sum.splits dest: getVersion_error)

lemma setCurrent_None_eq:
  "setCurrent E None w =
     (let w1 = w\<lparr>trace := trace w @ [Sys (Unlink (CURRENT_LINK E))]\<rparr> in
      case fault E (Unlink (CURRENT_LINK E)) of
        Some e \<Rightarrow> (if e = ENOENT then Inr () else Inl (SystemError e), w1)
      | None \<Rightarrow>
          (case map_of (nodes w) (CURRENT_LINK E) of
             None \<Rightarrow> (Inr (), w1)
           | Some Dir \<Rightarrow> (Inl (SystemError EISDIR), w1)
           | Some _ \<Rightarrow> (Inr (), w1\<lparr>nodes := AList.delete (CURRENT_LINK E) (nodes w)\<rparr>)))"
  by (auto simp: setCurrent_def fs_unlink_def io_defs Let_def
      split: option.splits node.splits sum.splits)

lemma fs_unlink_eq:
  "fs_unlink E p w =
     (let w1 = w\<lparr>trace := trace w @ [Sys (Unlink p)]\<rparr> in
      case fault E (Unlink p) of
        Some e \<Rightarrow> (Inl (SystemError e), w1)
      | None \<Rightarrow>
          (case map_of (nodes w) p of
             None \<Rightarrow> (Inl (SystemError ENOENT), w1)
           | Some Dir \<Rightarrow> (Inl (SystemError EISDIR), w1)
           | Some _ \<Rightarrow> (Inr (), w1\<lparr>nodes := AList.delete p (nodes w)\<rparr>)))"
  by (auto simp: fs_unlink_def io_defs Let_def split: option.splits node.splits)

lemma uninstall_current:
  assumes nofault: "\<forall>c. fault E c = None"
      and cur: "fst (getCurrent E w) = Inr (Some v)"
      and fl: "map_of (nodes w) (getPath E v) = Some (File c m)"
  shows "uninstall E v w =
           (Inr (), \<lparr>nodes = AList.delete (getPath E v) (AList.delete (CURRENT_LINK E) (nodes w)),
                     trace = trace w @ [Sys (Readlink (CURRENT_LINK E)), Sys (Unlink (CURRENT_LINK E)),
                                        Sys (Unlink (getPath E v))]\<rparr>)"
proof -
  from cur nofault obtain t where link: "map_of (nodes w) (CURRENT_LINK E) = Some (Link t)"
    by (auto simp: getCurrent_eq Let_def split: option.splits node.splits sum.splits)
  with fl have ne: "CURRENT_LINK E \<noteq> getPath E v" by auto
  from cur nofault link
  have 1: "getCurrent E w = (Inr (Some v), w\<lparr>trace := trace w @ [Sys (Readlink (CURRENT_LINK E))]\<rparr>)"
    by (auto simp: getCurrent_eq Let_def split: option.splits node.splits sum.splits)
  show ?thesis
    using nofault link fl ne
    by (simp add: uninstall_def bind_def 1 setCurrent_None_eq fs_unlink_eq Let_def delete_conv')
qed

text \<open>
  Claim C6, as stated, fails for \<^verbatim>\<open>install\<close> of the latest snapshot, which has no check of its
  own: on a store where 1.5.0 is installed it sends the request for the archive and replaces
  the content of the installed file.
\<close>

theorem install_installed_counterexample:
  "fst (isInstalled release_host ''1.5.0'' two_versions) = Inr True \<and>
   HttpGet ''https://releases.hashicorp.com/terraform/1.5.0/terraform_1.5.0_linux_amd64.zip''
     \<in> set (trace (snd (install release_host ''1.5.0'' two_versions))) \<and>
   map_of (nodes two_versions) ''/h/.tfvm/versions/terraform_1.5.0'' = Some (File ''new'' ''755'') \<and>
   map_of (nodes (snd (install release_host ''1.5.0'' two_versions))) ''/h/.tfvm/versions/terraform_1.5.0''
     = Some (File ''exe'' ''755'')"
  by (simp add: release_host_def two_versions_def eval_defs)

text \<open>
  Claim C6, amended. The check for an installed version is in \<^verbatim>\<open>installCommand\<close> (and, in the
  earlier snapshot, in \<^verbatim>\<open>install\<close> itself): when \<^verbatim>\<open>isInstalled\<close> returns true, either of
  them returns after the one \<^verbatim>\<open>stat\<close> call (and, for the command, one console line): no
  request is sent, nothing is written and the file system is what it was.
\<close>

theorem installCommand_idempotent:
  assumes "fst (isInstalled E v w) = Inr True"
  shows "installCommand E v w =
           (Inr (), w\<lparr>trace := trace w @ [Sys (Stat (getPath E v)),
                                           Console (''Version '' @ v @ '' already installed'')]\<rparr>) \<and>
         install_earlier E v w =
           (Inr (), w\<lparr>trace := trace w @ [Sys (Stat (getPath E v))]\<rparr>)"
proof -
  from assms isInstalled_world [of E v w]
  have "isInstalled E v w = (Inr True, w\<lparr>trace := trace w @ [Sys (Stat (getPath E v))]\<rparr>)"
    by (metis prod.collapse)
  then show ?thesis
    by (simp add: installCommand_def install_earlier_def bind_def emit_def ret_def)
qed

text \<open>The store with 1.5.0 installed.\<close>

theorem installCommand_idempotent_witness:
  "installCommand release_host ''1.5.0'' two_versions =
     (Inr (), two_versions\<lparr>trace := [Sys (Stat ''/h/.tfvm/versions/terraform_1.5.0''),
                                      Console ''Version 1.5.0 already installed'']\<rparr>) \<and>
   install_earlier release_host ''1.5.0'' two_versions =
     (Inr (), two_versions\<lparr>trace := [Sys (Stat ''/h/.tfvm/versions/terraform_1.5.0'')]\<rparr>)"
proof -
  have h: "fst (isInstalled release_host ''1.5.0'' two_versions) = Inr True"
    by (simp add: release_host_def two_versions_def eval_defs)
  have p: "getPath release_host ''1.5.0'' = ''/h/.tfvm/versions/terraform_1.5.0'' \<and>
      trace two_versions = []"
    by (simp add: release_host_def two_versions_def eval_defs)
  from installCommand_idempotent [OF h] p show ?thesis by simp
qed

text \<open>
  Claim C5, as stated, fails for \<^verbatim>\<open>uninstall\<close>, which has no check of its own: for a version
  that is not installed it fails with the \<open>ENOENT\<close> of \<^verbatim>\<open>unlink\<close>.
\<close>

theorem uninstall_counterexample:
  "fst (isInstalled release_host ''1.6.0'' two_versions) = Inr False \<and>
   fst (uninstall release_host ''1.6.0'' two_versions) = Inl (SystemError ENOENT)"
  by (simp add: release_host_def two_versions_def eval_defs)

text \<open>
  Claim C5, amended. \<^verbatim>\<open>uninstallCommand\<close> fails with the not-installed error, before any
  change, when \<^verbatim>\<open>isInstalled\<close> returns false. When no system call fails, the version is the
  one \<^verbatim>\<open>getCurrent\<close> returns and its file is a regular file, \<^verbatim>\<open>uninstall\<close> reads the link,
  removes the link and then removes the file, in this order; afterwards \<^verbatim>\<open>getCurrent\<close>
  returns \<^verbatim>\<open>null\<close> and \<^verbatim>\<open>isInstalled\<close> returns false.
\<close>

theorem uninstall_current_version:
  "(fst (isInstalled E v w) = Inr False
      \<longrightarrow> uninstallCommand E v w =
            (Inl (NotInstalled v), w\<lparr>trace := trace w @ [Sys (Stat (getPath E v))]\<rparr>)) \<and>
   ((\<forall>c. fault E c = None) \<and> fst (getCurrent E w) = Inr (Some v) \<and>
    map_of (nodes w) (getPath E v) = Some (File c m)
      \<longrightarrow> fst (uninstall E v w) = Inr () \<and>
          trace (snd (uninstall E v w)) =
            trace w @ [Sys (Readlink (CURRENT_LINK E)), Sys (Unlink (CURRENT_LINK E)),
                       Sys (Unlink (getPath E v))] \<and>
          fst (getCurrent E (snd (uninstall E v w))) = Inr None \<and>
          fst (isInstalled E v (snd (uninstall E v w))) = Inr False)"
proof (intro conjI impI)
  assume "fst (isInstalled E v w) = Inr False"
  with isInstalled_world [of E v w]
  have "isInstalled E v w = (Inr False, w\<lparr>trace := trace w @ [Sys (Stat (getPath E v))]\<rparr>)"
    by (metis prod.collapse)
  then show "uninstallCommand E v w =
      (Inl (NotInstalled v), w\<lparr>trace := trace w @ [Sys (Stat (getPath E v))]\<rparr>)"
    by (simp add: uninstallCommand_def bind_def throw_def)
next
  assume a: "(\<forall>c. fault E c = None) \<and> fst (getCurrent E w) = Inr (Some v) \<and>
    map_of (nodes w) (getPath E v) = Some (File c m)"
  then have nofault: "\<forall>c. fault E c = None" and cur: "fst (getCurrent E w) = Inr (Some v)"
    and fl: "map_of (nodes w) (getPath E v) = Some (File c m)"
    by simp_all
  from cur nofault obtain t where link: "map_of (nodes w) (CURRENT_LINK E) = Some (Link t)"
    by (auto simp: getCurrent_eq Let_def split: option.splits node.splits sum.splits)
  with fl have ne: "getPath E v \<noteq> CURRENT_LINK E" by auto
  note un = uninstall_current [OF nofault cur fl]
  show "fst (uninstall E v w) = Inr ()"
    by (simp add: un)
  show "trace (snd (uninstall E v w)) =
      trace w @ [Sys (Readlink (CURRENT_LINK E)), Sys (Unlink (CURRENT_LINK E)),
                 Sys (Unlink (getPath E v))]"
    by (simp add: un)
  show "fst (getCurrent E (snd (uninstall E v w))) = Inr None"
    using nofault ne by (simp add: un getCurrent_eq delete_conv')
  show "fst (isInstalled E v (snd (uninstall E v w))) = Inr False"
    using nofault by (simp add: un isInstalled_eq delete_conv')
qed

text \<open>The store where 1.5.0 is installed and current; 1.6.0 is not installed.\<close>

theorem uninstall_current_version_witness:
  "uninstallCommand release_host ''1.6.0'' active_store =
     (Inl (NotInstalled ''1.6.0''),
      active_store\<lparr>trace := [Sys (Stat ''/h/.tfvm/versions/terraform_1.6.0'')]\<rparr>) \<and>
   fst (uninstall release_host ''1.5.0'' active_store) = Inr () \<and>
   trace (snd (uninstall release_host ''1.5.0'' active_store)) =
     [Sys (Readlink ''/h/.tfvm/terraform''), Sys (Unlink ''/h/.tfvm/terraform''),
      Sys (Unlink ''/h/.tfvm/versions/terraform_1.5.0'')] \<and>
   fst (getCurrent release_host (snd (uninstall release_host ''1.5.0'' active_store))) = Inr None \<and>
   fst (isInstalled release_host ''1.5.0'' (snd (uninstall release_host ''1.5.0'' active_store)))
     = Inr False"
proof -
  have h1: "fst (isInstalled release_host ''1.6.0'' active_store) = Inr False"
    by (simp add: release_host_def active_store_def eval_defs)
  have h2: "(\<forall>c. fault release_host c = None) \<and>
      fst (getCurrent release_host active_store) = Inr (Some ''1.5.0'') \<and>
      map_of (nodes active_store) (getPath release_host ''1.5.0'') = Some (File ''new'' ''755'')"
    by (simp add: release_host_def active_store_def eval_defs)
  have p: "getPath release_host ''1.6.0'' = ''/h/.tfvm/versions/terraform_1.6.0'' \<and>
      getPath release_host ''1.5.0'' = ''/h/.tfvm/versions/terraform_1.5.0'' \<and>
      CURRENT_LINK release_host = ''/h/.tfvm/terraform'' \<and> trace active_store = []"
    by (simp add: release_host_def active_store_def eval_defs)
  from uninstall_current_version [of release_host "''1.6.0''" active_store] h1 p
  have 1: "uninstallCommand release_host ''1.6.0'' active_store =
     (Inl (NotInstalled ''1.6.0''),
      active_store\<lparr>trace := [Sys (Stat ''/h/.tfvm/versions/terraform_1.6.0'')]\<rparr>)"
    by simp
  from uninstall_current_version [of release_host "''1.5.0''" active_store "''new''" "''755''"] h2 p
  have 2: "fst (uninstall release_host ''1.5.0'' active_store) = Inr () \<and>
   trace (snd (uninstall release_host ''1.5.0'' active_store)) =
     [Sys (Readlink ''/h/.tfvm/terraform''), Sys (Unlink ''/h/.tfvm/terraform''),
      Sys (Unlink ''/h/.tfvm/versions/terraform_1.5.0'')] \<and>
   fst (getCurrent release_host (snd (uninstall release_host ''1.5.0'' active_store))) = Inr None \<and>
   fst (isInstalled release_host ''1.5.0'' (snd (uninstall release_host ''1.5.0'' active_store)))
     = Inr False"
    by simp
  from 1 2 show ?thesis by simp
qed

text \<open>
  Claim C7 at a failing input: creating the link fails with \<open>EACCES\<close>. \<^verbatim>\<open>setCurrent\<close> ends
  normally and no link exists; the error does not reach the caller.
\<close>

theorem setCurrent_swallows_link_error:
  "setCurrent (release_host\<lparr>fault := symlink_denied\<rparr>) (Some ''1.5.0'') two_versions =
     (Inr (), two_versions\<lparr>trace := [Sys (Unlink ''/h/.tfvm/terraform''),
        Sys (Symlink ''/h/.tfvm/versions/terraform_1.5.0'' ''/h/.tfvm/terraform'')]\<rparr>)"
  by (simp add: release_host_def two_versions_def eval_defs)

text \<open>The second handler of \<^verbatim>\<open>setCurrent\<close> for every error of the link creation.\<close>

lemma setCurrent_link_error:
  assumes "fault E (Unlink (CURRENT_LINK E)) = None"
      and "fault E (Symlink (getPath E v) (CURRENT_LINK E)) = Some e"
  shows "fst (setCurrent E (Some v) w) =
           (if map_of (nodes w) (CURRENT_LINK E) = Some Dir then Inl (SystemError EISDIR)
            else if e = EPERM then Inl InsufficientPermissions
            else Inr ())"
  using assms
  by (auto simp: setCurrent_def fs_unlink_def fs_symlink_def io_defs Let_def
      split: option.splits node.splits)

subsection \<open>The install pipeline\<close>

text \<open>
  The hasher forwards what it receives: after the chunks \<open>cs\<close> it has been fed their
  concatenation, and so has the extractor.
\<close>

lemma pipe_chunks_eq:
  "pipe_chunks hs cs = (hs\<lparr>hash_state := hash_state hs @ concat cs\<rparr>, concat cs)"
  by (induction cs arbitrary: hs) (simp_all add: transform_def)

text \<open>The directory call touches no other path.\<close>

lemma mkdir_ok_world:
  assumes "fs_mkdir_recursive E d w = (Inr (), w1)"
  shows "trace w1 = trace w @ [Sys (Mkdir d)]"
    and "p \<noteq> d \<Longrightarrow> map_of (nodes w1) p = map_of (nodes w) p"
  using assms
  by (auto simp: fs_mkdir_recursive_def sys_def Let_def update_conv'
      split: option.splits node.splits)

lemma mkdir_error_world:
  assumes "fs_mkdir_recursive E d w = (Inl e, w1)"
  shows "w1 = w\<lparr>trace := trace w @ [Sys (Mkdir d)]\<rparr>"
  using assms
  by (auto simp: fs_mkdir_recursive_def sys_def Let_def split: option.splits node.splits)

lemma getPath_neq_VERSIONS_DIR: "getPath E v \<noteq> VERSIONS_DIR E"
  by (simp add: getPath_def path_join_def)

text \<open>
  The download stage: what it does for a status other than 200, that its rejection is the
  result of \<^verbatim>\<open>install\<close> as it is (no handler is in scope), and that it opens the file only
  after a response with status 200.
\<close>

lemma install_download_non200:
  assumes "getExeUrl E v = Inr url" and "http_stream E url = Response st chunks err"
      and "st \<noteq> 200"
  shows "install_download E v p w =
           (Inl (DownloadFailed st), w\<lparr>trace := trace w @ [HttpGet url, HttpAbort url]\<rparr>)"
  using assms by (simp add: install_download_def io_defs)

lemma install_download_error_propagates:
  assumes "fs_mkdir_recursive E (VERSIONS_DIR E) w = (Inr (), w1)"
      and "install_download E v (getPath E v) w1 = (Inl e, w2)"
  shows "install E v w = (Inl e, w2)"
  using assms by (simp add: install_def bind_def)

lemma install_download_no_response:
  assumes "install_download E v p w = (r, w')"
      and "\<not> (\<exists>url chunks err. getExeUrl E v = Inr url \<and> http_stream E url = Response 200 chunks err)"
  shows "Sys (Open p) \<in> set (trace w') \<longrightarrow> Sys (Open p) \<in> set (trace w)"
  using assms
  by (auto simp: install_download_def io_defs split: sum.splits stream_outcome.splits if_splits)

lemma install_download_fails_without_200:
  assumes "\<not> (\<exists>url chunks err. getExeUrl E v = Inr url \<and> http_stream E url = Response 200 chunks err)"
  shows "\<exists>e. fst (install_download E v p w) = Inl e"
proof (cases "getExeUrl E v")
  case (Inl e)
  then show ?thesis by (simp add: install_download_def io_defs)
next
  case (Inr url)
  with assms show ?thesis
    by (cases "http_stream E url") (auto simp: install_download_def io_defs)
qed

text \<open>\<^verbatim>\<open>fetchSum\<close> changes nothing but the trace, and its result does not depend on the world.\<close>

lemma fetchSum_world:
  "fetchSum E v w =
     (fst (fetchSum E v w0),
      w\<lparr>trace := trace w @ [HttpGet (getSumsUrl v), HttpGet (getSigUrl v)]\<rparr>)"
  by (simp add: fetchSum_def io_defs split: sum.splits list.splits)

text \<open>When the download stage resolves, the digest and the file are these.\<close>

lemma createWriteStream_ok:
  assumes "fs_createWriteStream E p w = (Inr (), w1)"
  shows "\<exists>m. map_of (nodes w1) p = Some (File [] m)"
  using assms
  by (auto simp: fs_createWriteStream_def sys_def Let_def update_conv'
      split: option.splits node.splits)

lemma write_ok:
  assumes "fs_write E p d w = (Inr (), w1)" and "map_of (nodes w) p = Some (File c m)"
  shows "map_of (nodes w1) p = Some (File (c @ d) m)"
  using assms
  by (auto simp: fs_write_def sys_def Let_def update_conv' split: option.splits node.splits)

lemma install_download_ok:
  assumes dl: "install_download E v p w = (Inr actual, w')"
      and url: "getExeUrl E v = Inr url"
      and resp: "http_stream E url = Response st chunks err"
  shows "actual = sha256_hex E (concat chunks) \<and> st = 200 \<and> err = None \<and>
         snd (unzip_ParseOne E (concat chunks)) = None \<and>
         (\<exists>m. map_of (nodes w') p = Some (File (fst (unzip_ParseOne E (concat chunks))) m))"
proof -
  let ?w0 = "w\<lparr>trace := trace w @ [HttpGet url]\<rparr>"
  obtain out uerr where unz: "unzip_ParseOne E (concat chunks) = (out, uerr)"
    by (cases "unzip_ParseOne E (concat chunks)")
  have st: "st = 200"
    using dl url resp by (auto simp: install_download_def io_defs split: if_splits)
  obtain r1 w1 where cw: "fs_createWriteStream E p ?w0 = (r1, w1)"
    by (cases "fs_createWriteStream E p ?w0")
  have r1: "r1 = Inr ()"
    using dl url resp st cw by (cases r1) (auto simp: install_download_def io_defs)
  obtain r2 w2 where wr: "fs_write E p out w1 = (r2, w2)"
    by (cases "fs_write E p out w1")
  have step: "install_download E v p w =
      (case r2 of Inl e \<Rightarrow> (Inl e, w2)
       | Inr _ \<Rightarrow> (case err of Some e \<Rightarrow> (Inl e, w2)
                   | None \<Rightarrow> (case uerr of Some e \<Rightarrow> (Inl e, w2)
                               | None \<Rightarrow> (Inr (sha256_hex E (concat chunks)), w2))))"
    using url resp st cw r1 wr unz
    by (simp add: install_download_def bind_def lift_def emit_def throw_def ret_def
        pipe_chunks_eq sha256Stream_new_def digest_def split: sum.splits option.splits)
  from step dl have r2: "r2 = Inr ()" and e: "err = None" and u: "uerr = None"
      and a: "actual = sha256_hex E (concat chunks)" and w: "w' = w2"
    by (auto split: sum.splits option.splits)
  from createWriteStream_ok cw r1 obtain m where "map_of (nodes w1) p = Some (File [] m)"
    by blast
  with write_ok [of E p out w1 w2 "[]" m] wr r2 w
  have "map_of (nodes w') p = Some (File out m)" by simp
  with st e u a unz show ?thesis by simp
qed

text \<open>
  The verification stage of \<^verbatim>\<open>install\<close>, for each outcome of \<^verbatim>\<open>fetchSum\<close> and of the
  comparison. Its handler removes the file before it rethrows.
\<close>

lemma install_after_download:
  assumes "fs_mkdir_recursive E (VERSIONS_DIR E) w = (Inr (), w1)"
      and "install_download E v (getPath E v) w1 = (Inr actual, w2)"
  shows "install E v w =
     catch
       (bind (fetchSum E v) (\<lambda>expectedSum.
        bind (if Some actual \<noteq> expectedSum then throw HashVerificationFailed else ret ()) (\<lambda>_.
        fs_chmod E (getPath E v) ''755'')))
       (\<lambda>err. bind (fs_unlink E (getPath E v)) (\<lambda>_. throw err)) w2"
  using assms by (simp add: install_def bind_def)

lemma fs_unlink_file:
  assumes "fault E (Unlink p) = None" and "map_of (nodes w) p = Some (File c m)"
  shows "fs_unlink E p w =
     (Inr (), \<lparr>nodes = AList.delete p (nodes w), trace = trace w @ [Sys (Unlink p)]\<rparr>)"
  using assms by (simp add: fs_unlink_def sys_def)

lemma fs_chmod_file:
  assumes "fault E (Chmod p md) = None" and "map_of (nodes w) p = Some (File c m)"
  shows "fs_chmod E p md w =
     (Inr (), \<lparr>nodes = AList.update p (File c md) (nodes w), trace = trace w @ [Sys (Chmod p md)]\<rparr>)"
  using assms by (simp add: fs_chmod_def sys_def)

lemma install_fetchSum_error:
  assumes mk: "fs_mkdir_recursive E (VERSIONS_DIR E) w = (Inr (), w1)"
      and dl: "install_download E v (getPath E v) w1 = (Inr actual, w2)"
      and fl: "map_of (nodes w2) (getPath E v) = Some (File c m)"
      and nf: "fault E (Unlink (getPath E v)) = None"
      and fe: "fst (fetchSum E v w2) = Inl e"
  shows "install E v w =
     (Inl e, \<lparr>nodes = AList.delete (getPath E v) (nodes w2),
               trace = trace w2 @ [HttpGet (getSumsUrl v), HttpGet (getSigUrl v),
                                   Sys (Unlink (getPath E v))]\<rparr>)"
proof -
  let ?w3 = "w2\<lparr>trace := trace w2 @ [HttpGet (getSumsUrl v), HttpGet (getSigUrl v)]\<rparr>"
  have fs: "fetchSum E v w2 = (Inl e, ?w3)"
    using fetchSum_world [of E v w2 w2] fe by simp
  have fl3: "map_of (nodes ?w3) (getPath E v) = Some (File c m)"
    using fl by simp
  show ?thesis
    using fs fs_unlink_file [OF nf fl3]
    by (simp add: install_after_download [OF mk dl] catch_def bind_def throw_def)
qed

lemma install_mismatch:
  assumes mk: "fs_mkdir_recursive E (VERSIONS_DIR E) w = (Inr (), w1)"
      and dl: "install_download E v (getPath E v) w1 = (Inr actual, w2)"
      and fl: "map_of (nodes w2) (getPath E v) = Some (File c m)"
      and nf: "fault E (Unlink (getPath E v)) = None"
      and fe: "fst (fetchSum E v w2) = Inr expectedSum"
      and ne: "expectedSum \<noteq> Some actual"
  shows "install E v w =
     (Inl HashVerificationFailed,
      \<lparr>nodes = AList.delete (getPath E v) (nodes w2),
        trace = trace w2 @ [HttpGet (getSumsUrl v), HttpGet (getSigUrl v),
                            Sys (Unlink (getPath E v))]\<rparr>)"
proof -
  let ?w3 = "w2\<lparr>trace := trace w2 @ [HttpGet (getSumsUrl v), HttpGet (getSigUrl v)]\<rparr>"
  have fs: "fetchSum E v w2 = (Inr expectedSum, ?w3)"
    using fetchSum_world [of E v w2 w2] fe by simp
  have fl3: "map_of (nodes ?w3) (getPath E v) = Some (File c m)"
    using fl by simp
  from ne have ne': "Some actual \<noteq> expectedSum" by auto
  show ?thesis
    using fs fs_unlink_file [OF nf fl3] ne'
    by (simp add: install_after_download [OF mk dl] catch_def bind_def throw_def)
qed

lemma install_match:
  assumes mk: "fs_mkdir_recursive E (VERSIONS_DIR E) w = (Inr (), w1)"
      and dl: "install_download E v (getPath E v) w1 = (Inr actual, w2)"
      and fl: "map_of (nodes w2) (getPath E v) = Some (File c m)"
      and nf: "fault E (Chmod (getPath E v) ''755'') = None"
      and fe: "fst (fetchSum E v w2) = Inr (Some actual)"
  shows "install E v w =
     (Inr (), \<lparr>nodes = AList.update (getPath E v) (File c ''755'') (nodes w2),
                trace = trace w2 @ [HttpGet (getSumsUrl v), HttpGet (getSigUrl v),
                                    Sys (Chmod (getPath E v) ''755'')]\<rparr>)"
proof -
  let ?w3 = "w2\<lparr>trace := trace w2 @ [HttpGet (getSumsUrl v), HttpGet (getSigUrl v)]\<rparr>"
  have fs: "fetchSum E v w2 = (Inr (Some actual), ?w3)"
    using fetchSum_world [of E v w2 w2] fe by simp
  have fl3: "map_of (nodes ?w3) (getPath E v) = Some (File c m)"
    using fl by simp
  show ?thesis
    using fs fs_chmod_file [OF nf fl3]
    by (simp add: install_after_download [OF mk dl] catch_def bind_def ret_def)
qed

lemma install_download_file:
  assumes dl: "install_download E v p w = (Inr actual, w')"
  shows "\<exists>c m. map_of (nodes w') p = Some (File c m)"
proof -
  obtain url where url: "getExeUrl E v = Inr url"
    using dl by (cases "getExeUrl E v") (auto simp: install_download_def io_defs)
  obtain st chunks err where resp: "http_stream E url = Response st chunks err"
    using dl url by (cases "http_stream E url") (auto simp: install_download_def io_defs)
  from install_download_ok [OF dl url resp] show ?thesis by blast
qed

text \<open>The result of \<^verbatim>\<open>fetchSum\<close> once both requests have succeeded.\<close>

lemma getZipName_update: "getZipName (E\<lparr>pgp_verify := f\<rparr>) v = getZipName E v"
  by (simp add: getZipName_def getPlatform_def getArch_def)

lemma fetchSum_eq:
  assumes "http_get E (getSumsUrl v) = Inr sumsRes" and "http_get E (getSigUrl v) = Inr sigRes"
  shows "fst (fetchSum E v w) =
     (case pgp_verify E (publicKey E) (res_text sumsRes) (res_body sigRes) of
        Inl e \<Rightarrow> Inl e
      | Inr [] \<Rightarrow> Inl TypeError
      | Inr (verified # _) \<Rightarrow>
          if \<not> verified then Inl SignatureVerificationFailed
          else (case getZipName E v of
                  Inl e \<Rightarrow> Inl e
                | Inr zipName \<Rightarrow> Inr (Map_get (sumsMap (res_text sumsRes)) (Some zipName))))"
  using assms by (simp add: fetchSum_def io_defs split: sum.splits list.splits)

text \<open>
  Claim C8. When the directory call has succeeded and the response has a status other than 200,
  \<^verbatim>\<open>install\<close> fails with the download error that carries the status; it has sent the
  request and aborted it and has made no other call, and what is at the install path is what
  was there before. In every run of \<^verbatim>\<open>install\<close>, the install path is opened for writing only
  if a response with status 200 was received.
\<close>

theorem no_file_without_success_status:
  "(getExeUrl E v = Inr url \<and> http_stream E url = Response st chunks err \<and> st \<noteq> 200 \<and>
      fst (fs_mkdir_recursive E (VERSIONS_DIR E) w) = Inr ()
      \<longrightarrow> fst (install E v w) = Inl (DownloadFailed st) \<and>
          trace (snd (install E v w)) =
            trace w @ [Sys (Mkdir (VERSIONS_DIR E)), HttpGet url, HttpAbort url] \<and>
          map_of (nodes (snd (install E v w))) (getPath E v) = map_of (nodes w) (getPath E v)) \<and>
   (Sys (Open (getPath E v)) \<in> set (trace (snd (install E v w))) \<and>
      Sys (Open (getPath E v)) \<notin> set (trace w)
      \<longrightarrow> (\<exists>url chunks err. getExeUrl E v = Inr url \<and> http_stream E url = Response 200 chunks err))"
proof (intro conjI impI)
  assume a: "getExeUrl E v = Inr url \<and> http_stream E url = Response st chunks err \<and> st \<noteq> 200 \<and>
      fst (fs_mkdir_recursive E (VERSIONS_DIR E) w) = Inr ()"
  then obtain w1 where mk: "fs_mkdir_recursive E (VERSIONS_DIR E) w = (Inr (), w1)"
    by (metis prod.collapse)
  from a have dl: "install_download E v (getPath E v) w1 =
      (Inl (DownloadFailed st), w1\<lparr>trace := trace w1 @ [HttpGet url, HttpAbort url]\<rparr>)"
    by (simp add: install_download_non200)
  have inst: "install E v w =
      (Inl (DownloadFailed st), w1\<lparr>trace := trace w1 @ [HttpGet url, HttpAbort url]\<rparr>)"
    by (rule install_download_error_propagates [OF mk dl])
  show "fst (install E v w) = Inl (DownloadFailed st)"
    by (simp add: inst)
  show "trace (snd (install E v w)) =
      trace w @ [Sys (Mkdir (VERSIONS_DIR E)), HttpGet url, HttpAbort url]"
    by (simp add: inst mkdir_ok_world(1) [OF mk])
  show "map_of (nodes (snd (install E v w))) (getPath E v) = map_of (nodes w) (getPath E v)"
    by (simp add: inst mkdir_ok_world(2) [OF mk getPath_neq_VERSIONS_DIR])
next
  assume b: "Sys (Open (getPath E v)) \<in> set (trace (snd (install E v w))) \<and>
      Sys (Open (getPath E v)) \<notin> set (trace w)"
  show "\<exists>url chunks err. getExeUrl E v = Inr url \<and> http_stream E url = Response 200 chunks err"
  proof (rule ccontr)
    assume no: "\<not> (\<exists>url chunks err. getExeUrl E v = Inr url \<and> http_stream E url = Response 200 chunks err)"
    obtain r1 w1 where mk: "fs_mkdir_recursive E (VERSIONS_DIR E) w = (r1, w1)"
      by (cases "fs_mkdir_recursive E (VERSIONS_DIR E) w")
    show False
    proof (cases r1)
      case (Inl e)
      with mk have "install E v w = (Inl e, w\<lparr>trace := trace w @ [Sys (Mkdir (VERSIONS_DIR E))]\<rparr>)"
        by (auto simp: install_def bind_def dest: mkdir_error_world)
      with b show False by simp
    next
      case (Inr u)
      with mk have mk': "fs_mkdir_recursive E (VERSIONS_DIR E) w = (Inr (), w1)" by simp
      obtain r2 w2 where dl: "install_download E v (getPath E v) w1 = (r2, w2)"
        by (cases "install_download E v (getPath E v) w1")
      from install_download_no_response [OF dl no] mkdir_ok_world(1) [OF mk'] b
      have nopen: "Sys (Open (getPath E v)) \<notin> set (trace w2)"
        by auto
      from install_download_fails_without_200 [OF no, of "getPath E v" w1] dl
      obtain e where "r2 = Inl e"
        by auto
      with dl mk' have "install E v w = (Inl e, w2)"
        by (simp add: install_download_error_propagates)
      with b nopen show False by simp
    qed
  qed
qed

text \<open>The 32-bit host gets a 404 for its archive; the 64-bit host gets a 200.\<close>

theorem no_file_without_success_status_witness:
  "fst (install (release_host\<lparr>os_arch := ''ia32''\<rparr>) ''1.5.0'' empty_world) = Inl (DownloadFailed 404) \<and>
   trace (snd (install (release_host\<lparr>os_arch := ''ia32''\<rparr>) ''1.5.0'' empty_world)) =
     [Sys (Mkdir ''/h/.tfvm/versions''),
      HttpGet ''https://releases.hashicorp.com/terraform/1.5.0/terraform_1.5.0_linux_386.zip'',
      HttpAbort ''https://releases.hashicorp.com/terraform/1.5.0/terraform_1.5.0_linux_386.zip''] \<and>
   map_of (nodes (snd (install (release_host\<lparr>os_arch := ''ia32''\<rparr>) ''1.5.0'' empty_world)))
     ''/h/.tfvm/versions/terraform_1.5.0'' = None \<and>
   (\<exists>url chunks err. getExeUrl release_host ''1.5.0'' = Inr url \<and>
      http_stream release_host url = Response 200 chunks err)"
proof -
  let ?E = "release_host\<lparr>os_arch := ''ia32''\<rparr>"
  let ?url = "''https://releases.hashicorp.com/terraform/1.5.0/terraform_1.5.0_linux_386.zip''"
  have h: "getExeUrl ?E ''1.5.0'' = Inr ?url \<and> http_stream ?E ?url = Response 404 [] None \<and>
      (404::nat) \<noteq> 200 \<and> fst (fs_mkdir_recursive ?E (VERSIONS_DIR ?E) empty_world) = Inr ()"
    by (simp add: release_host_def empty_world_def eval_defs)
  have p: "getPath ?E ''1.5.0'' = ''/h/.tfvm/versions/terraform_1.5.0'' \<and>
      VERSIONS_DIR ?E = ''/h/.tfvm/versions'' \<and> trace empty_world = [] \<and>
      map_of (nodes empty_world) ''/h/.tfvm/versions/terraform_1.5.0'' = None"
    by (simp add: release_host_def empty_world_def eval_defs)
  have o: "Sys (Open (getPath release_host ''1.5.0'')) \<in>
        set (trace (snd (install release_host ''1.5.0'' empty_world))) \<and>
      Sys (Open (getPath release_host ''1.5.0'')) \<notin> set (trace empty_world)"
    by (simp add: release_host_def empty_world_def eval_defs)
  from no_file_without_success_status [of ?E "''1.5.0''" ?url 404 "[]" None empty_world] h p
  have 1: "fst (install ?E ''1.5.0'' empty_world) = Inl (DownloadFailed 404) \<and>
   trace (snd (install ?E ''1.5.0'' empty_world)) =
     [Sys (Mkdir ''/h/.tfvm/versions''), HttpGet ?url, HttpAbort ?url] \<and>
   map_of (nodes (snd (install ?E ''1.5.0'' empty_world))) ''/h/.tfvm/versions/terraform_1.5.0'' = None"
    by simp
  from no_file_without_success_status [of release_host "''1.5.0''" _ _ _ _ empty_world] o
  have 2: "\<exists>url chunks err. getExeUrl release_host ''1.5.0'' = Inr url \<and>
      http_stream release_host url = Response 200 chunks err"
    by blast
  from 1 2 show ?thesis by simp
qed

text \<open>
  Claim C2. Let the response have the chunks \<open>chunks\<close>, let the download stage resolve with
  \<open>actualSum\<close> and let \<^verbatim>\<open>fetchSum\<close> return \<open>expectedSum\<close>. Then \<open>actualSum\<close> is the SHA-256
  of the concatenated chunks, that is of the archive as received; the file holds what the
  extractor emitted for these bytes; and \<^verbatim>\<open>install\<close> succeeds exactly when \<open>expectedSum\<close> is
  the digest of the archive, and fails with the hash error otherwise. The digest of the
  extracted bytes appears nowhere.
\<close>

theorem install_compares_archive_digest:
  assumes url: "getExeUrl E v = Inr url"
      and resp: "http_stream E url = Response st chunks err"
      and mk: "fs_mkdir_recursive E (VERSIONS_DIR E) w = (Inr (), w1)"
      and dl: "install_download E v (getPath E v) w1 = (Inr actualSum, w2)"
      and fe: "fst (fetchSum E v w2) = Inr expectedSum"
      and nf: "fault E (Chmod (getPath E v) ''755'') = None" "fault E (Unlink (getPath E v)) = None"
  shows "actualSum = sha256_hex E (concat chunks) \<and>
         (\<exists>m. map_of (nodes w2) (getPath E v) =
                 Some (File (fst (unzip_ParseOne E (concat chunks))) m)) \<and>
         fst (install E v w) =
           (if expectedSum = Some (sha256_hex E (concat chunks)) then Inr ()
            else Inl HashVerificationFailed)"
proof -
  from install_download_ok [OF dl url resp]
  obtain m where a: "actualSum = sha256_hex E (concat chunks)"
    and fl: "map_of (nodes w2) (getPath E v) = Some (File (fst (unzip_ParseOne E (concat chunks))) m)"
    by blast
  have "fst (install E v w) =
      (if expectedSum = Some actualSum then Inr () else Inl HashVerificationFailed)"
  proof (cases "expectedSum = Some actualSum")
    case True
    with install_match [OF mk dl fl nf(1)] fe show ?thesis by simp
  next
    case False
    with install_mismatch [OF mk dl fl nf(2) fe] show ?thesis by simp
  qed
  with a fl show ?thesis by blast
qed

text \<open>
  The release installs; with a manifest that lists the digest of the extracted executable the
  same download fails the comparison.
\<close>

theorem install_compares_archive_digest_witness:
  "fst (install release_host ''1.5.0'' empty_world) = Inr () \<and>
   fst (install digest_of_executable ''1.5.0'' empty_world) = Inl HashVerificationFailed \<and>
   map_of (nodes downloaded) ''/h/.tfvm/versions/terraform_1.5.0'' = Some (File ''exe'' ''644'') \<and>
   sha256_hex release_host (concat [''PK'', ''exe'']) = ''sha(PKexe)''"
proof -
  let ?url = "''https://releases.hashicorp.com/terraform/1.5.0/terraform_1.5.0_linux_amd64.zip''"
  have p: "getPath release_host ''1.5.0'' = ''/h/.tfvm/versions/terraform_1.5.0'' \<and>
      getPath digest_of_executable ''1.5.0'' = ''/h/.tfvm/versions/terraform_1.5.0'' \<and>
      sha256_hex release_host (concat [''PK'', ''exe'']) = ''sha(PKexe)'' \<and>
      sha256_hex digest_of_executable (concat [''PK'', ''exe'']) = ''sha(PKexe)''"
    by (simp add: digest_of_executable_def release_host_def eval_defs)
  have url: "getExeUrl release_host ''1.5.0'' = Inr ?url"
    by (simp add: release_host_def eval_defs)
  have resp: "http_stream release_host ?url = Response 200 [''PK'', ''exe''] None"
    by (simp add: release_host_def)
  have mk: "fs_mkdir_recursive release_host (VERSIONS_DIR release_host) empty_world =
      (Inr (), versions_dir_only)"
    by (simp add: release_host_def empty_world_def versions_dir_only_def eval_defs)
  have dl: "install_download release_host ''1.5.0'' (getPath release_host ''1.5.0'') versions_dir_only =
      (Inr ''sha(PKexe)'', downloaded)"
    by (simp add: release_host_def versions_dir_only_def downloaded_def eval_defs)
  have fe: "fst (fetchSum release_host ''1.5.0'' downloaded) = Inr (Some ''sha(PKexe)'')"
    by (simp add: release_host_def downloaded_def eval_defs)
  have nf: "fault release_host (Chmod (getPath release_host ''1.5.0'') ''755'') = None"
    "fault release_host (Unlink (getPath release_host ''1.5.0'')) = None"
    by (simp_all add: release_host_def)
  have url': "getExeUrl digest_of_executable ''1.5.0'' = Inr ?url"
    by (simp add: digest_of_executable_def release_host_def eval_defs)
  have resp': "http_stream digest_of_executable ?url = Response 200 [''PK'', ''exe''] None"
    by (simp add: digest_of_executable_def release_host_def)
  have mk': "fs_mkdir_recursive digest_of_executable (VERSIONS_DIR digest_of_executable) empty_world =
      (Inr (), versions_dir_only)"
    by (simp add: digest_of_executable_def release_host_def empty_world_def versions_dir_only_def
        eval_defs)
  have dl': "install_download digest_of_executable ''1.5.0''
      (getPath digest_of_executable ''1.5.0'') versions_dir_only = (Inr ''sha(PKexe)'', downloaded)"
    by (simp add: digest_of_executable_def release_host_def versions_dir_only_def downloaded_def
        eval_defs)
  have fe': "fst (fetchSum digest_of_executable ''1.5.0'' downloaded) = Inr (Some ''sha(exe)'')"
    by (simp add: digest_of_executable_def release_host_def downloaded_def eval_defs)
  have nf': "fault digest_of_executable (Chmod (getPath digest_of_executable ''1.5.0'') ''755'') = None"
    "fault digest_of_executable (Unlink (getPath digest_of_executable ''1.5.0'')) = None"
    by (simp_all add: digest_of_executable_def release_host_def)
  from install_compares_archive_digest [OF url resp mk dl fe nf]
  have 1: "fst (install release_host ''1.5.0'' empty_world) = Inr () \<and>
      map_of (nodes downloaded) ''/h/.tfvm/versions/terraform_1.5.0'' = Some (File ''exe'' ''644'')"
    by (simp add: release_host_def downloaded_def)
  from install_compares_archive_digest [OF url' resp' mk' dl' fe' nf']
  have 2: "fst (install digest_of_executable ''1.5.0'' empty_world) = Inl HashVerificationFailed"
    by (simp add: digest_of_executable_def release_host_def)
  from 1 2 p show ?thesis by simp
qed

text \<open>
  Claim C3, as stated, fails: when the library throws while it verifies, or when the result
  holds no signature, \<^verbatim>\<open>fetchSum\<close> fails with that error and not with the signature error.
\<close>

theorem fetchSum_library_error_counterexample:
  "pgp_verify verifier_throws (publicKey verifier_throws)
     (''0f  terraform_1.5.0_darwin_amd64.zip'' @ [CHR 0x0A] @
      ''sha(PKexe)  terraform_1.5.0_linux_amd64.zip'' @ [CHR 0x0A]) ''SIGNED''
     = Inl (LibraryError ''Message digest did not match'') \<and>
   fst (fetchSum verifier_throws ''1.5.0'' empty_world) =
     Inl (LibraryError ''Message digest did not match'') \<and>
   fst (fetchSum no_signature ''1.5.0'' empty_world) = Inl TypeError"
  by (simp add: verifier_throws_def no_signature_def release_host_def empty_world_def eval_defs)

text \<open>
  Claim C3, amended. Let both requests of \<^verbatim>\<open>fetchSum\<close> succeed, and consider the result of
  \<^verbatim>\<open>openpgp.verify\<close>, called with the pinned key, the text of the manifest as received and
  the signature as received. If its first signature is not verified, \<^verbatim>\<open>fetchSum\<close> fails with
  the signature error; if the library throws, \<^verbatim>\<open>fetchSum\<close> fails with the error of the
  library; if the result holds no signature, it fails with a \<^verbatim>\<open>TypeError\<close>; so it fails
  whenever the first signature is not a verified one, and when it is verified it returns the
  entry of the manifest. The verifier is consulted at this one point only: another verifier
  that agrees with it there gives the same result. In \<^verbatim>\<open>install\<close>, after a download that
  resolved, the error of \<^verbatim>\<open>fetchSum\<close> is the error of \<^verbatim>\<open>install\<close> whatever the digests
  are, and the file is removed.
\<close>

theorem fetchSum_rejects_bad_signature:
  assumes sums: "http_get E (getSumsUrl v) = Inr sumsRes"
      and sig: "http_get E (getSigUrl v) = Inr sigRes"
  shows "(pgp_verify E (publicKey E) (res_text sumsRes) (res_body sigRes) = Inr (False # rest)
            \<longrightarrow> fst (fetchSum E v w) = Inl SignatureVerificationFailed) \<and>
         ((\<forall>rest. pgp_verify E (publicKey E) (res_text sumsRes) (res_body sigRes) \<noteq> Inr (True # rest))
            \<longrightarrow> (\<exists>e. fst (fetchSum E v w) = Inl e)) \<and>
         (f (publicKey E) (res_text sumsRes) (res_body sigRes) =
            pgp_verify E (publicKey E) (res_text sumsRes) (res_body sigRes)
            \<longrightarrow> fst (fetchSum (E\<lparr>pgp_verify := f\<rparr>) v w) = fst (fetchSum E v w)) \<and>
         (pgp_verify E (publicKey E) (res_text sumsRes) (res_body sigRes) = Inr (False # rest) \<and>
          fs_mkdir_recursive E (VERSIONS_DIR E) w = (Inr (), w1) \<and>
          install_download E v (getPath E v) w1 = (Inr actualSum, w2) \<and>
          fault E (Unlink (getPath E v)) = None
            \<longrightarrow> fst (install E v w) = Inl SignatureVerificationFailed \<and>
                map_of (nodes (snd (install E v w))) (getPath E v) = None) \<and>
         (pgp_verify E (publicKey E) (res_text sumsRes) (res_body sigRes) = Inl e
            \<longrightarrow> fst (fetchSum E v w) = Inl e) \<and>
         (pgp_verify E (publicKey E) (res_text sumsRes) (res_body sigRes) = Inr []
            \<longrightarrow> fst (fetchSum E v w) = Inl TypeError) \<and>
         (pgp_verify E (publicKey E) (res_text sumsRes) (res_body sigRes) = Inr (True # rest) \<and>
          getZipName E v = Inr zipName
            \<longrightarrow> fst (fetchSum E v w) = Inr (Map_get (sumsMap (res_text sumsRes)) (Some zipName))) \<and>
         ((\<forall>rest. pgp_verify E (publicKey E) (res_text sumsRes) (res_body sigRes) \<noteq> Inr (True # rest)) \<and>
          fs_mkdir_recursive E (VERSIONS_DIR E) w = (Inr (), w1) \<and>
          install_download E v (getPath E v) w1 = (Inr actualSum, w2) \<and>
          fault E (Unlink (getPath E v)) = None
            \<longrightarrow> (\<exists>e. fst (fetchSum E v w) = Inl e \<and> fst (install E v w) = Inl e) \<and>
                map_of (nodes (snd (install E v w))) (getPath E v) = None)"
proof (intro conjI impI)
  assume "pgp_verify E (publicKey E) (res_text sumsRes) (res_body sigRes) = Inr (False # rest)"
  then show "fst (fetchSum E v w) = Inl SignatureVerificationFailed"
    by (simp add: fetchSum_eq [OF sums sig])
next
  assume "\<forall>rest. pgp_verify E (publicKey E) (res_text sumsRes) (res_body sigRes) \<noteq> Inr (True # rest)"
  then show "\<exists>e. fst (fetchSum E v w) = Inl e"
    by (auto simp: fetchSum_eq [OF sums sig] split: sum.splits list.splits)
next
  assume same: "f (publicKey E) (res_text sumsRes) (res_body sigRes) =
      pgp_verify E (publicKey E) (res_text sumsRes) (res_body sigRes)"
  have "fst (fetchSum (E\<lparr>pgp_verify := f\<rparr>) v w) =
     (case f (publicKey E) (res_text sumsRes) (res_body sigRes) of
        Inl e \<Rightarrow> Inl e
      | Inr [] \<Rightarrow> Inl TypeError
      | Inr (verified # _) \<Rightarrow>
          if \<not> verified then Inl SignatureVerificationFailed
          else (case getZipName E v of
                  Inl e \<Rightarrow> Inl e
                | Inr zipName \<Rightarrow> Inr (Map_get (sumsMap (res_text sumsRes)) (Some zipName))))"
    using fetchSum_eq [of "E\<lparr>pgp_verify := f\<rparr>" v sumsRes sigRes w] sums sig
    unfolding getZipName_update by simp
  with same show "fst (fetchSum (E\<lparr>pgp_verify := f\<rparr>) v w) = fst (fetchSum E v w)"
    by (simp add: fetchSum_eq [OF sums sig])
next
  assume a: "pgp_verify E (publicKey E) (res_text sumsRes) (res_body sigRes) = Inr (False # rest) \<and>
          fs_mkdir_recursive E (VERSIONS_DIR E) w = (Inr (), w1) \<and>
          install_download E v (getPath E v) w1 = (Inr actualSum, w2) \<and>
          fault E (Unlink (getPath E v)) = None"
  then have mk: "fs_mkdir_recursive E (VERSIONS_DIR E) w = (Inr (), w1)"
    and dl: "install_download E v (getPath E v) w1 = (Inr actualSum, w2)"
    and nf: "fault E (Unlink (getPath E v)) = None"
    by simp_all
  from a have fe: "fst (fetchSum E v w2) = Inl SignatureVerificationFailed"
    by (simp add: fetchSum_eq [OF sums sig])
  from install_download_file [OF dl]
  obtain c m where fl: "map_of (nodes w2) (getPath E v) = Some (File c m)"
    by blast
  from install_fetchSum_error [OF mk dl fl nf fe]
  show "fst (install E v w) = Inl SignatureVerificationFailed"
    and "map_of (nodes (snd (install E v w))) (getPath E v) = None"
    by (simp_all add: delete_conv')
next
  assume "pgp_verify E (publicKey E) (res_text sumsRes) (res_body sigRes) = Inl e"
  then show "fst (fetchSum E v w) = Inl e"
    by (simp add: fetchSum_eq [OF sums sig])
next
  assume "pgp_verify E (publicKey E) (res_text sumsRes) (res_body sigRes) = Inr []"
  then show "fst (fetchSum E v w) = Inl TypeError"
    by (simp add: fetchSum_eq [OF sums sig])
next
  assume "pgp_verify E (publicKey E) (res_text sumsRes) (res_body sigRes) = Inr (True # rest) \<and>
          getZipName E v = Inr zipName"
  then show "fst (fetchSum E v w) = Inr (Map_get (sumsMap (res_text sumsRes)) (Some zipName))"
    by (simp add: fetchSum_eq [OF sums sig])
next
  assume a: "(\<forall>rest. pgp_verify E (publicKey E) (res_text sumsRes) (res_body sigRes) \<noteq> Inr (True # rest)) \<and>
          fs_mkdir_recursive E (VERSIONS_DIR E) w = (Inr (), w1) \<and>
          install_download E v (getPath E v) w1 = (Inr actualSum, w2) \<and>
          fault E (Unlink (getPath E v)) = None"
  then have mk: "fs_mkdir_recursive E (VERSIONS_DIR E) w = (Inr (), w1)"
    and dl: "install_download E v (getPath E v) w1 = (Inr actualSum, w2)"
    and nf: "fault E (Unlink (getPath E v)) = None"
    by simp_all
  from a have "\<exists>e. fst (fetchSum E v w2) = Inl e"
    by (auto simp: fetchSum_eq [OF sums sig] split: sum.splits list.splits)
  then obtain e where fe: "fst (fetchSum E v w2) = Inl e" ..
  have same: "fst (fetchSum E v w) = fst (fetchSum E v w2)"
    by (simp add: fetchSum_eq [OF sums sig])
  from install_download_file [OF dl]
  obtain c m where fl: "map_of (nodes w2) (getPath E v) = Some (File c m)"
    by blast
  from install_fetchSum_error [OF mk dl fl nf fe] fe same
  show "\<exists>e. fst (fetchSum E v w) = Inl e \<and> fst (install E v w) = Inl e"
    and "map_of (nodes (snd (install E v w))) (getPath E v) = None"
    by (simp_all add: delete_conv')
qed

text \<open>
  The release with a forged signature, with a verifier that throws, with a result without
  signatures, and as it is.
\<close>

theorem fetchSum_rejects_bad_signature_witness:
  "fst (fetchSum forged_signature ''1.5.0'' empty_world) = Inl SignatureVerificationFailed \<and>
   fst (fetchSum (forged_signature\<lparr>pgp_verify := (\<lambda>k m s. Inr [False])\<rparr>) ''1.5.0'' empty_world) =
     fst (fetchSum forged_signature ''1.5.0'' empty_world) \<and>
   fst (install forged_signature ''1.5.0'' empty_world) = Inl SignatureVerificationFailed \<and>
   map_of (nodes (snd (install forged_signature ''1.5.0'' empty_world)))
     ''/h/.tfvm/versions/terraform_1.5.0'' = None \<and>
   fst (fetchSum verifier_throws ''1.5.0'' empty_world) =
     Inl (LibraryError ''Message digest did not match'') \<and>
   fst (install verifier_throws ''1.5.0'' empty_world) =
     Inl (LibraryError ''Message digest did not match'') \<and>
   map_of (nodes (snd (install verifier_throws ''1.5.0'' empty_world)))
     ''/h/.tfvm/versions/terraform_1.5.0'' = None \<and>
   fst (fetchSum no_signature ''1.5.0'' empty_world) = Inl TypeError \<and>
   fst (fetchSum release_host ''1.5.0'' empty_world) = Inr (Some ''sha(PKexe)'')"
proof -
  let ?sums = "\<lparr>status = 200,
      res_text = ''0f  terraform_1.5.0_darwin_amd64.zip'' @ [CHR 0x0A] @
                 ''sha(PKexe)  terraform_1.5.0_linux_amd64.zip'' @ [CHR 0x0A],
      res_body = []\<rparr>"
  let ?sig = "\<lparr>status = 200, res_text = [], res_body = ''FORGED''\<rparr>"
  let ?good = "\<lparr>status = 200, res_text = [], res_body = ''SIGNED''\<rparr>"
  let ?f = "\<lambda>(k::string) (m::string) (s::string). Inr [False] :: error + bool list"
  have sums: "http_get forged_signature (getSumsUrl ''1.5.0'') = Inr ?sums"
    by (simp add: forged_signature_def release_host_def eval_defs)
  have sig: "http_get forged_signature (getSigUrl ''1.5.0'') = Inr ?sig"
    by (simp add: forged_signature_def release_host_def eval_defs)
  have ver: "pgp_verify forged_signature (publicKey forged_signature) (res_text ?sums) (res_body ?sig)
      = Inr (False # [])"
    by (simp add: forged_signature_def release_host_def)
  have nover: "\<forall>rest. pgp_verify forged_signature (publicKey forged_signature) (res_text ?sums)
      (res_body ?sig) \<noteq> Inr (True # rest)"
    by (simp add: forged_signature_def release_host_def)
  have same: "?f (publicKey forged_signature) (res_text ?sums) (res_body ?sig) =
      pgp_verify forged_signature (publicKey forged_signature) (res_text ?sums) (res_body ?sig)"
    by (simp add: forged_signature_def release_host_def)
  have inst: "fs_mkdir_recursive forged_signature (VERSIONS_DIR forged_signature) empty_world =
        (Inr (), versions_dir_only) \<and>
      install_download forged_signature ''1.5.0'' (getPath forged_signature ''1.5.0'')
        versions_dir_only = (Inr ''sha(PKexe)'', downloaded) \<and>
      fault forged_signature (Unlink (getPath forged_signature ''1.5.0'')) = None"
    by (simp add: forged_signature_def release_host_def empty_world_def versions_dir_only_def
        downloaded_def eval_defs)
  have p: "getPath forged_signature ''1.5.0'' = ''/h/.tfvm/versions/terraform_1.5.0''"
    by (simp add: forged_signature_def release_host_def eval_defs)
  note at_input = fetchSum_rejects_bad_signature [OF sums sig, of "[]" empty_world ?f
      versions_dir_only "''sha(PKexe)''" downloaded]
  from at_input ver have 1: "fst (fetchSum forged_signature ''1.5.0'' empty_world) =
      Inl SignatureVerificationFailed"
    by blast
  from at_input nover have "\<exists>e. fst (fetchSum forged_signature ''1.5.0'' empty_world) = Inl e"
    by blast
  from at_input same have 2: "fst (fetchSum (forged_signature\<lparr>pgp_verify := ?f\<rparr>) ''1.5.0'' empty_world) =
     fst (fetchSum forged_signature ''1.5.0'' empty_world)"
    by blast
  from at_input ver inst have 3: "fst (install forged_signature ''1.5.0'' empty_world) =
      Inl SignatureVerificationFailed \<and>
     map_of (nodes (snd (install forged_signature ''1.5.0'' empty_world)))
       (getPath forged_signature ''1.5.0'') = None"
    by blast
  have tsums: "http_get verifier_throws (getSumsUrl ''1.5.0'') = Inr ?sums"
    by (simp add: verifier_throws_def release_host_def eval_defs)
  have tsig: "http_get verifier_throws (getSigUrl ''1.5.0'') = Inr ?good"
    by (simp add: verifier_throws_def release_host_def eval_defs)
  have tver: "pgp_verify verifier_throws (publicKey verifier_throws) (res_text ?sums) (res_body ?good)
      = Inl (LibraryError ''Message digest did not match'')"
    by (simp add: verifier_throws_def release_host_def)
  have tnover: "\<forall>rest. pgp_verify verifier_throws (publicKey verifier_throws) (res_text ?sums)
      (res_body ?good) \<noteq> Inr (True # rest)"
    by (simp add: verifier_throws_def release_host_def)
  have tinst: "fs_mkdir_recursive verifier_throws (VERSIONS_DIR verifier_throws) empty_world =
        (Inr (), versions_dir_only) \<and>
      install_download verifier_throws ''1.5.0'' (getPath verifier_throws ''1.5.0'')
        versions_dir_only = (Inr ''sha(PKexe)'', downloaded) \<and>
      fault verifier_throws (Unlink (getPath verifier_throws ''1.5.0'')) = None"
    by (simp add: verifier_throws_def release_host_def empty_world_def versions_dir_only_def
        downloaded_def eval_defs)
  have tp: "getPath verifier_throws ''1.5.0'' = ''/h/.tfvm/versions/terraform_1.5.0''"
    by (simp add: verifier_throws_def release_host_def eval_defs)
  note throwing = fetchSum_rejects_bad_signature [OF tsums tsig,
      where e = "LibraryError ''Message digest did not match''" and w = empty_world
        and ?w1.0 = versions_dir_only and actualSum = "''sha(PKexe)''" and ?w2.0 = downloaded]
  from throwing tver have 4: "fst (fetchSum verifier_throws ''1.5.0'' empty_world) =
      Inl (LibraryError ''Message digest did not match'')"
    by blast
  from throwing tnover tinst
  have "(\<exists>e. fst (fetchSum verifier_throws ''1.5.0'' empty_world) = Inl e \<and>
           fst (install verifier_throws ''1.5.0'' empty_world) = Inl e) \<and>
     map_of (nodes (snd (install verifier_throws ''1.5.0'' empty_world)))
       (getPath verifier_throws ''1.5.0'') = None"
    by blast
  with 4 have 5: "fst (install verifier_throws ''1.5.0'' empty_world) =
      Inl (LibraryError ''Message digest did not match'') \<and>
     map_of (nodes (snd (install verifier_throws ''1.5.0'' empty_world)))
       (getPath verifier_throws ''1.5.0'') = None"
    by auto
  have nsums: "http_get no_signature (getSumsUrl ''1.5.0'') = Inr ?sums"
    by (simp add: no_signature_def release_host_def eval_defs)
  have nsig: "http_get no_signature (getSigUrl ''1.5.0'') = Inr ?good"
    by (simp add: no_signature_def release_host_def eval_defs)
  have nver: "pgp_verify no_signature (publicKey no_signature) (res_text ?sums) (res_body ?good) = Inr []"
    by (simp add: no_signature_def release_host_def)
  from fetchSum_rejects_bad_signature [OF nsums nsig, where w = empty_world] nver
  have 6: "fst (fetchSum no_signature ''1.5.0'' empty_world) = Inl TypeError"
    by blast
  have rsums: "http_get release_host (getSumsUrl ''1.5.0'') = Inr ?sums"
    by (simp add: release_host_def eval_defs)
  have rsig: "http_get release_host (getSigUrl ''1.5.0'') = Inr ?good"
    by (simp add: release_host_def eval_defs)
  have rver: "pgp_verify release_host (publicKey release_host) (res_text ?sums) (res_body ?good)
      = Inr (True # []) \<and>
      getZipName release_host ''1.5.0'' = Inr ''terraform_1.5.0_linux_amd64.zip''"
    by (simp add: release_host_def eval_defs)
  have rget: "Map_get (sumsMap (res_text ?sums)) (Some ''terraform_1.5.0_linux_amd64.zip'') =
      Some ''sha(PKexe)''"
    by (simp add: eval_defs)
  from fetchSum_rejects_bad_signature [OF rsums rsig, where w = empty_world and rest = "[]"
      and zipName = "''terraform_1.5.0_linux_amd64.zip''"] rver
  have "fst (fetchSum release_host ''1.5.0'' empty_world) =
      Inr (Map_get (sumsMap (res_text ?sums)) (Some ''terraform_1.5.0_linux_amd64.zip''))"
    by blast
  with rget have 7: "fst (fetchSum release_host ''1.5.0'' empty_world) = Inr (Some ''sha(PKexe)'')"
    by simp
  from 1 2 3 4 5 6 7 p tp show ?thesis by simp
qed

text \<open>
  Claim C4, as stated, fails: the manifest does not list the archive of the 32-bit host, and
  \<^verbatim>\<open>fetchSum\<close> returns \<^verbatim>\<open>undefined\<close> instead of failing.
\<close>

theorem fetchSum_absent_counterexample:
  "getZipName unlisted_arch ''1.5.0'' = Inr ''terraform_1.5.0_linux_386.zip'' \<and>
   Some ''terraform_1.5.0_linux_386.zip'' \<notin>
     dom (sumsMap (''0f  terraform_1.5.0_darwin_amd64.zip'' @ [CHR 0x0A] @
                   ''sha(PKexe)  terraform_1.5.0_linux_amd64.zip'' @ [CHR 0x0A])) \<and>
   fst (fetchSum unlisted_arch ''1.5.0'' empty_world) = Inr None"
  by (simp add: unlisted_arch_def release_host_def empty_world_def eval_defs)

text \<open>
  Claim C4, amended. When both requests succeed, the signature verifies and the name of the
  archive is no key of the parsed manifest, \<^verbatim>\<open>fetchSum\<close> returns \<^verbatim>\<open>undefined\<close> to its caller.
  \<^verbatim>\<open>install\<close>, after a download that resolved, then fails with the hash error and removes the
  file.
\<close>

theorem fetchSum_absent_checksum:
  assumes sums: "http_get E (getSumsUrl v) = Inr sumsRes"
      and sig: "http_get E (getSigUrl v) = Inr sigRes"
      and ver: "pgp_verify E (publicKey E) (res_text sumsRes) (res_body sigRes) = Inr (True # rest)"
      and zip: "getZipName E v = Inr zipName"
      and absent: "Some zipName \<notin> dom (sumsMap (res_text sumsRes))"
  shows "fst (fetchSum E v w) = Inr None \<and>
         (fs_mkdir_recursive E (VERSIONS_DIR E) w = (Inr (), w1) \<and>
          install_download E v (getPath E v) w1 = (Inr actualSum, w2) \<and>
          fault E (Unlink (getPath E v)) = None
            \<longrightarrow> fst (install E v w) = Inl HashVerificationFailed \<and>
                map_of (nodes (snd (install E v w))) (getPath E v) = None)"
proof (intro conjI impI)
  have none: "fst (fetchSum E v w') = Inr None" for w'
    using ver zip absent
    by (auto simp: fetchSum_eq [OF sums sig] Map_get_def split: option.splits)
  then show "fst (fetchSum E v w) = Inr None" .
  assume a: "fs_mkdir_recursive E (VERSIONS_DIR E) w = (Inr (), w1) \<and>
          install_download E v (getPath E v) w1 = (Inr actualSum, w2) \<and>
          fault E (Unlink (getPath E v)) = None"
  then have mk: "fs_mkdir_recursive E (VERSIONS_DIR E) w = (Inr (), w1)"
    and dl: "install_download E v (getPath E v) w1 = (Inr actualSum, w2)"
    and nf: "fault E (Unlink (getPath E v)) = None"
    by simp_all
  from install_download_file [OF dl]
  obtain c m where fl: "map_of (nodes w2) (getPath E v) = Some (File c m)"
    by blast
  from install_mismatch [OF mk dl fl nf none]
  show "fst (install E v w) = Inl HashVerificationFailed"
    and "map_of (nodes (snd (install E v w))) (getPath E v) = None"
    by (simp_all add: delete_conv')
qed

text \<open>The 32-bit host, served an archive that the manifest does not list.\<close>

theorem fetchSum_absent_checksum_witness:
  "fst (fetchSum unlisted_arch ''1.5.0'' empty_world) = Inr None \<and>
   fst (install unlisted_arch ''1.5.0'' empty_world) = Inl HashVerificationFailed \<and>
   map_of (nodes (snd (install unlisted_arch ''1.5.0'' empty_world)))
     ''/h/.tfvm/versions/terraform_1.5.0'' = None"
proof -
  let ?sums = "\<lparr>status = 200,
      res_text = ''0f  terraform_1.5.0_darwin_amd64.zip'' @ [CHR 0x0A] @
                 ''sha(PKexe)  terraform_1.5.0_linux_amd64.zip'' @ [CHR 0x0A],
      res_body = []\<rparr>"
  let ?sig = "\<lparr>status = 200, res_text = [], res_body = ''SIGNED''\<rparr>"
  have sums: "http_get unlisted_arch (getSumsUrl ''1.5.0'') = Inr ?sums"
    by (simp add: unlisted_arch_def release_host_def eval_defs)
  have sig: "http_get unlisted_arch (getSigUrl ''1.5.0'') = Inr ?sig"
    by (simp add: unlisted_arch_def release_host_def eval_defs)
  have ver: "pgp_verify unlisted_arch (publicKey unlisted_arch) (res_text ?sums) (res_body ?sig) =
      Inr (True # [])"
    by (simp add: unlisted_arch_def release_host_def)
  have zip: "getZipName unlisted_arch ''1.5.0'' = Inr ''terraform_1.5.0_linux_386.zip''"
    by (simp add: unlisted_arch_def release_host_def eval_defs)
  have absent: "Some ''terraform_1.5.0_linux_386.zip'' \<notin> dom (sumsMap (res_text ?sums))"
    by (simp add: eval_defs)
  have inst: "fs_mkdir_recursive unlisted_arch (VERSIONS_DIR unlisted_arch) empty_world =
        (Inr (), versions_dir_only) \<and>
      install_download unlisted_arch ''1.5.0'' (getPath unlisted_arch ''1.5.0'') versions_dir_only =
        (Inr ''sha(PKexe)'', downloaded_386) \<and>
      fault unlisted_arch (Unlink (getPath unlisted_arch ''1.5.0'')) = None"
    by (simp add: unlisted_arch_def release_host_def empty_world_def versions_dir_only_def
        downloaded_386_def eval_defs)
  have p: "getPath unlisted_arch ''1.5.0'' = ''/h/.tfvm/versions/terraform_1.5.0''"
    by (simp add: unlisted_arch_def release_host_def eval_defs)
  from fetchSum_absent_checksum [OF sums sig ver zip absent, of empty_world versions_dir_only
      "''sha(PKexe)''" downloaded_386] inst p
  show ?thesis by simp
qed

text \<open>
  Claim C1 at a failing input: the response has status 200 and a body that is no archive. The
  file has been created when the extractor fails; \<^verbatim>\<open>install\<close> fails with the error of the
  extractor, and the empty file is still at the install path.
\<close>

theorem install_leaves_partial_file:
  "install corrupt_archive ''1.5.0'' empty_world =
     (Inl (LibraryError ''invalid signature''),
      \<lparr>nodes = [(''/h/.tfvm/versions'', Dir),
                (''/h/.tfvm/versions/terraform_1.5.0'', File [] ''644'')],
        trace = [Sys (Mkdir ''/h/.tfvm/versions''),
                 HttpGet ''https://releases.hashicorp.com/terraform/1.5.0/terraform_1.5.0_linux_amd64.zip'',
                 Sys (Open ''/h/.tfvm/versions/terraform_1.5.0''),
                 Sys (Write ''/h/.tfvm/versions/terraform_1.5.0'')]\<rparr>)"
  by (simp add: corrupt_archive_def release_host_def empty_world_def eval_defs)

end
